theory Spec2Isabelle
  imports Main
begin

section \<open>The device planner of Relay (src/relay/transforms/device_planner.cc)\<close>

text \<open>
  The planner runs four phases over a module: Phase 0 (\<open>RewriteOnDevices\<close>) normalises the
  "on_device" annotations, Phase 1 (\<open>DeviceAnalyzer\<close>) collects the scope constraints,
  Phase 2 (\<open>DeviceDefaulter\<close>) fills in the scopes left free, and Phase 3
  (\<open>DeviceCapturer\<close>) rewrites the module. The phases are embedded here as HOL functions
  over a datatype of Relay expressions. Fatal errors (\<open>LOG(FATAL)\<close>, a failed \<open>ICHECK\<close>)
  are values of a sum type.
\<close>

subsection \<open>Scopes\<close>

text \<open>
  Modelled from the spec: \<open>SEScope\<close> (tvm/target/se\_scope.h is not part of the sources).
  A scope has three facets, a device kind, a target descriptor and a memory scope, each
  known or unknown. It is fully unconstrained when every facet is unknown and fully
  constrained when every facet is known.
\<close>

datatype SEScope =
  SEScope (device_type: "nat option") (target: "string option") (memory_scope: "string option")

definition IsFullyUnconstrained :: "SEScope \<Rightarrow> bool" where
  "IsFullyUnconstrained s \<longleftrightarrow>
     device_type s = None \<and> target s = None \<and> memory_scope s = None"

definition IsFullyConstrainedScope :: "SEScope \<Rightarrow> bool" where
  "IsFullyConstrainedScope s \<longleftrightarrow>
     device_type s \<noteq> None \<and> target s \<noteq> None \<and> memory_scope s \<noteq> None"

definition FullyUnconstrained :: SEScope where
  "FullyUnconstrained = SEScope None None None"

definition CPU :: SEScope where
  "CPU = SEScope (Some 1) (Some ''llvm'') (Some ''global'')"

definition GPU :: SEScope where
  "GPU = SEScope (Some 2) (Some ''cuda'') (Some ''global'')"

subsection \<open>Expressions\<close>

text \<open>
  The attributes of a call: the \<open>OnDeviceAttrs\<close> of an "on_device" call (scope and
  \<open>is_fixed\<close>), the \<open>DeviceCopyAttrs\<close> of a "device_copy" call (source and destination
  scope), or anything else. The attributes of a function: the integer value of the
  \<open>Primitive\<close> attribute (\<open>HasNonzeroAttr(attr::kPrimitive)\<close> tests it against zero) and the
  optional "param_se_scopes" and "result_se_scope" attributes.
\<close>

datatype call_attrs =
    NoAttrs
  | OnDeviceAttrs SEScope bool
  | DeviceCopyAttrs SEScope SEScope
  | OtherAttrs nat

datatype func_attrs =
  FuncAttrs (primitive: nat) (param_se_scopes: "SEScope list option")
            (result_se_scope: "SEScope option")

datatype pattern =
    PatternWildcard
  | PatternVar string
  | PatternConstructor string "pattern list"
  | PatternTuple "pattern list"

text \<open>
  Relay expressions. Variables are named; a \<open>Let\<close> and a \<open>Function\<close> bind names. Types,
  type arguments and spans are left out: every rewrite below copies them from the node it
  rebuilds.
\<close>

datatype expr =
    Var string
  | GlobalVar string
  | Constant nat
  | Op string
  | Constructor string
  | Tuple "expr list"
  | TupleGetItem expr nat
  | Let string expr expr
  | If expr expr expr
  | Function "string list" expr func_attrs
  | Call expr "expr list" call_attrs
  | Match expr "(pattern \<times> expr) list" bool
  | RefCreate expr
  | RefRead expr
  | RefWrite expr expr

text \<open>
  Modelled from the spec: the annotation call shapes of op/memory/on\_device.h and
  op/memory/device\_copy.h, which are not part of the sources.
  \<open>on_device(e, scope=S, is_fixed=b)\<close> is a call of the operator "on_device" with one
  argument, and \<open>device_copy(e, src=S1, dst=S2)\<close> a call of the operator "device_copy"
  with one argument. \<open>GetOnDeviceProps\<close> and \<open>GetDeviceCopyProps\<close> recognise the two
  shapes (\<open>props.body.defined()\<close> is \<open>Some\<close>).
\<close>

definition OnDevice :: "expr \<Rightarrow> SEScope \<Rightarrow> bool \<Rightarrow> expr" where
  "OnDevice e s is_fixed = Call (Op ''on_device'') [e] (OnDeviceAttrs s is_fixed)"

definition DeviceCopy :: "expr \<Rightarrow> SEScope \<Rightarrow> SEScope \<Rightarrow> expr" where
  "DeviceCopy e src dst = Call (Op ''device_copy'') [e] (DeviceCopyAttrs src dst)"

fun GetOnDeviceProps :: "expr \<Rightarrow> (expr \<times> SEScope \<times> bool) option" where
  "GetOnDeviceProps (Call (Op n) [body] (OnDeviceAttrs s is_fixed)) =
     (if n = ''on_device'' then Some (body, s, is_fixed) else None)"
| "GetOnDeviceProps _ = None"

fun GetDeviceCopyProps :: "expr \<Rightarrow> (expr \<times> SEScope \<times> SEScope) option" where
  "GetDeviceCopyProps (Call (Op n) [body] (DeviceCopyAttrs src dst)) =
     (if n = ''device_copy'' then Some (body, src, dst) else None)"
| "GetDeviceCopyProps _ = None"

subsection \<open>Phase 0: RewriteOnDevices\<close>

text \<open>
  \<open>RewriteOnDevices\<close> overrides the visits of \<open>TupleGetItemNode\<close>, \<open>LetNode\<close> and
  \<open>FunctionNode\<close> of the \<open>ExprMutator\<close>; every other node is rebuilt from its rewritten
  children. \<open>fix_on_device\<close> is the step shared by the let and the function visit: a
  rewritten value that is an "on_device" call with \<open>is_fixed=false\<close> is rebuilt from
  \<open>props.body\<close> with \<open>is_fixed=true\<close>. The let visit unwinds a chain of lets in a loop; an
  iteration of the loop is a recursive call on the body here.
\<close>

definition fix_on_device :: "expr \<Rightarrow> expr" where
  "fix_on_device v =
     (case GetOnDeviceProps v of
        Some (body, s, is_fixed) \<Rightarrow> if \<not> is_fixed then OnDevice body s True else v
      | None \<Rightarrow> v)"

fun RewriteOnDevices :: "expr \<Rightarrow> expr" where
  "RewriteOnDevices (TupleGetItem t i) =
     (let tuple = RewriteOnDevices t;
          tuple_get_item = TupleGetItem tuple i
      in case GetOnDeviceProps tuple of
           Some (body, s, is_fixed) \<Rightarrow>
             if \<not> is_fixed then OnDevice tuple_get_item s False else tuple_get_item
         | None \<Rightarrow> tuple_get_item)"
| "RewriteOnDevices (Let x v b) =
     Let x (fix_on_device (RewriteOnDevices v)) (RewriteOnDevices b)"
| "RewriteOnDevices (Function ps body a) =
     Function ps (fix_on_device (RewriteOnDevices body)) a"
| "RewriteOnDevices (Tuple fs) = Tuple (map RewriteOnDevices fs)"
| "RewriteOnDevices (If c t f) =
     If (RewriteOnDevices c) (RewriteOnDevices t) (RewriteOnDevices f)"
| "RewriteOnDevices (Call f args a) =
     Call (RewriteOnDevices f) (map RewriteOnDevices args) a"
| "RewriteOnDevices (Match d cs complete) =
     Match (RewriteOnDevices d) (map (\<lambda>(p, rhs). (p, RewriteOnDevices rhs)) cs) complete"
| "RewriteOnDevices (RefCreate v) = RefCreate (RewriteOnDevices v)"
| "RewriteOnDevices (RefRead r) = RefRead (RewriteOnDevices r)"
| "RewriteOnDevices (RefWrite r v) = RefWrite (RewriteOnDevices r) (RewriteOnDevices v)"
| "RewriteOnDevices (Var x) = Var x"
| "RewriteOnDevices (GlobalVar g) = GlobalVar g"
| "RewriteOnDevices (Constant c) = Constant c"
| "RewriteOnDevices (Op n) = Op n"
| "RewriteOnDevices (Constructor n) = Constructor n"

subsection \<open>The store of device domains\<close>

text \<open>
  Modelled from the spec: the class \<open>DeviceDomains\<close> (device\_domains.h and
  device\_domains.cc are not part of the sources). A domain is first-order, a node of the
  union-find forest, or higher-order, a sequence of parameter domains and a result domain.
  The store maps expressions to domains (\<open>DomainFor\<close>), calls to the domain of their callee
  (\<open>DomainForCallee\<close>), a first-order node to its representative and a representative to
  its scope. The key of an expression in the maps is the expression itself. The store owns
  the compilation configuration: the host scope, the default scope for primitives and the
  canonicalisation of scopes.
\<close>

datatype domain =
    FirstOrder nat
  | HigherOrder "domain list" domain

record CompilationConfig =
  host_se_scope :: SEScope
  default_primitive_se_scope :: SEScope
  CanonicalSEScope :: "SEScope \<Rightarrow> SEScope"

record DeviceDomains =
  config :: CompilationConfig
  expr_to_domain :: "expr \<Rightarrow> domain option"
  call_to_callee_domain :: "expr \<Rightarrow> domain option"
  representative :: "nat \<Rightarrow> nat"
  se_scope_of :: "nat \<Rightarrow> SEScope"
  next_node :: nat

text \<open>
  The printed form of a domain (\<open>ToString\<close>): the same tree with the scope of each leaf.
  A fatal error is a failed internal check or a unification conflict, which carries the
  offending expressions and the printed form of both domains. \<open>ResultSEScope\<close> returns the
  scope of the result leaf; the callers check that it is not fully unconstrained.
\<close>

datatype printed_domain =
    PrintedScope SEScope
  | PrintedFn "printed_domain list" printed_domain

datatype error =
    InternalCheck string
  | IncompatibleScopes string "expr list" "printed_domain list"

fun ResultDomain :: "domain \<Rightarrow> nat" where
  "ResultDomain (FirstOrder n) = n"
| "ResultDomain (HigherOrder ps r) = ResultDomain r"

definition ResultSEScope :: "DeviceDomains \<Rightarrow> domain \<Rightarrow> SEScope" where
  "ResultSEScope D d = se_scope_of D (representative D (ResultDomain d))"

fun function_arity :: "domain \<Rightarrow> nat option" where
  "function_arity (FirstOrder n) = None"
| "function_arity (HigherOrder ps r) = Some (length ps)"

fun function_params :: "domain \<Rightarrow> domain list" where
  "function_params (FirstOrder n) = []"
| "function_params (HigherOrder ps r) = ps"

fun function_result :: "domain \<Rightarrow> domain" where
  "function_result (FirstOrder n) = FirstOrder n"
| "function_result (HigherOrder ps r) = r"

subsection \<open>Modules\<close>

text \<open>
  An \<open>IRModule\<close>: the global functions (\<open>mod->functions\<close>) in the order in which the
  module iterates over them, the type definitions, the imports (\<open>mod->Imports()\<close>) and the
  source map.
\<close>

record IRModule =
  functions_map :: "(string \<times> expr) list"
  type_definitions :: "(string \<times> string list) list"
  import_set :: "string list"
  source_map :: "(string \<times> string) list"

fun is_function :: "expr \<Rightarrow> bool" where
  "is_function (Function ps body a) = True"
| "is_function e = False"

text \<open>The callee of a call, and the callees that are not expressions of their own.\<close>

fun callee_of :: "expr \<Rightarrow> expr" where
  "callee_of (Call f args a) = f"
| "callee_of e = e"

fun is_op_or_constructor :: "expr \<Rightarrow> bool" where
  "is_op_or_constructor (Op n) = True"
| "is_op_or_constructor (Constructor n) = True"
| "is_op_or_constructor _ = False"

subsection \<open>Operations of the store\<close>

text \<open>
  Modelled from the spec: the operations of \<open>DeviceDomains\<close>. Two scopes join facet by
  facet and conflict where both know a facet and differ, so two fully constrained scopes
  join only if they are equal. Defaulting fills the unknown facets of a scope from the
  default: a fully unconstrained scope becomes the default, a fully constrained one stays.
\<close>

fun JoinFacet :: "'a option \<Rightarrow> 'a option \<Rightarrow> 'a option option" where
  "JoinFacet None y = Some y"
| "JoinFacet (Some a) None = Some (Some a)"
| "JoinFacet (Some a) (Some b) = (if a = b then Some (Some a) else None)"

definition JoinSEScope :: "SEScope \<Rightarrow> SEScope \<Rightarrow> SEScope option" where
  "JoinSEScope s t =
     (case (JoinFacet (device_type s) (device_type t), JoinFacet (target s) (target t),
            JoinFacet (memory_scope s) (memory_scope t)) of
        (Some d, Some tg, Some ms) \<Rightarrow> Some (SEScope d tg ms)
      | _ \<Rightarrow> None)"

fun DefaultFacet :: "'a option \<Rightarrow> 'a option \<Rightarrow> 'a option" where
  "DefaultFacet None y = y"
| "DefaultFacet (Some a) y = Some a"

definition DefaultSEScope :: "SEScope \<Rightarrow> SEScope \<Rightarrow> SEScope" where
  "DefaultSEScope s dflt =
     SEScope (DefaultFacet (device_type s) (device_type dflt))
             (DefaultFacet (target s) (target dflt))
             (DefaultFacet (memory_scope s) (memory_scope dflt))"

text \<open>
  Modelled from the spec: the union-find forest. \<open>representative D n\<close> is the root of the node \<open>n\<close> and
  \<open>se_scope_of D\<close> holds the scope of each root. Unifying two first-order nodes joins the
  scopes of their roots and forwards every node of the first class to the root of the
  second; it fails when the scopes conflict.
\<close>

definition node_scope :: "DeviceDomains \<Rightarrow> nat \<Rightarrow> SEScope" where
  "node_scope D n = se_scope_of D (representative D n)"

definition UnifyFirstOrder :: "nat \<Rightarrow> nat \<Rightarrow> DeviceDomains \<Rightarrow> DeviceDomains option" where
  "UnifyFirstOrder a b D =
     (if representative D a = representative D b then Some D
      else case JoinSEScope (node_scope D a) (node_scope D b) of
             None \<Rightarrow> None
           | Some s \<Rightarrow>
               Some (D\<lparr>representative :=
                          (\<lambda>n. if representative D n = representative D a
                               then representative D b else representative D n),
                        se_scope_of := (se_scope_of D)(representative D b := s)\<rparr>))"

fun UnifyOrNull :: "domain \<Rightarrow> domain \<Rightarrow> DeviceDomains \<Rightarrow> DeviceDomains option"
and UnifyAllOrNull :: "domain list \<Rightarrow> domain list \<Rightarrow> DeviceDomains \<Rightarrow> DeviceDomains option"
where
  "UnifyOrNull (FirstOrder a) (FirstOrder b) D = UnifyFirstOrder a b D"
| "UnifyOrNull (HigherOrder ps1 r1) (HigherOrder ps2 r2) D =
     (if length ps1 \<noteq> length ps2 then None
      else case UnifyAllOrNull ps1 ps2 D of
             None \<Rightarrow> None
           | Some D' \<Rightarrow> UnifyOrNull r1 r2 D')"
| "UnifyOrNull (FirstOrder a) (HigherOrder ps2 r2) D = None"
| "UnifyOrNull (HigherOrder ps1 r1) (FirstOrder b) D = None"
| "UnifyAllOrNull [] [] D = Some D"
| "UnifyAllOrNull (d1 # ds1) (d2 # ds2) D =
     (case UnifyOrNull d1 d2 D of
        None \<Rightarrow> None
      | Some D' \<Rightarrow> UnifyAllOrNull ds1 ds2 D')"
| "UnifyAllOrNull [] (d2 # ds2) D = None"
| "UnifyAllOrNull (d1 # ds1) [] D = None"

text \<open>
  Modelled from the spec: collapsing. Every parameter and result leaf of a domain is unified with its result
  leaf; two collapsed domains unify through their result leaves.
\<close>

fun leaves :: "domain \<Rightarrow> nat list" where
  "leaves (FirstOrder n) = [n]"
| "leaves (HigherOrder ps r) = concat (map leaves ps) @ leaves r"

fun UnifyLeaves :: "nat \<Rightarrow> nat list \<Rightarrow> DeviceDomains \<Rightarrow> DeviceDomains option" where
  "UnifyLeaves a [] D = Some D"
| "UnifyLeaves a (n # ns) D =
     (case UnifyFirstOrder a n D of
        None \<Rightarrow> None
      | Some D' \<Rightarrow> UnifyLeaves a ns D')"

definition UnifyCollapsedOrNull :: "domain \<Rightarrow> domain \<Rightarrow> DeviceDomains \<Rightarrow> DeviceDomains option" where
  "UnifyCollapsedOrNull d1 d2 D =
     (case UnifyLeaves (ResultDomain d1) (leaves d1) D of
        None \<Rightarrow> None
      | Some D1 \<Rightarrow>
          (case UnifyLeaves (ResultDomain d2) (leaves d2) D1 of
             None \<Rightarrow> None
           | Some D2 \<Rightarrow> UnifyFirstOrder (ResultDomain d1) (ResultDomain d2) D2))"

text \<open>
  Modelled from the spec: allocation. The checked type of an expression decides the shape of its domain: a
  function type gives a higher-order domain of the same arity, any other type a
  first-order one. \<open>ForSEScope\<close> constrains every leaf to the canonical form of the scope,
  \<open>Free\<close> leaves every leaf unconstrained.
\<close>

datatype relay_type =
    ValueType
  | FuncType "relay_type list" relay_type

definition MakeFirstOrderDomain :: "SEScope \<Rightarrow> DeviceDomains \<Rightarrow> domain \<times> DeviceDomains" where
  "MakeFirstOrderDomain s D =
     (FirstOrder (next_node D),
      D\<lparr>representative := (representative D)(next_node D := next_node D),
        se_scope_of := (se_scope_of D)(next_node D := s),
        next_node := Suc (next_node D)\<rparr>)"

fun MakeDomain :: "relay_type \<Rightarrow> SEScope \<Rightarrow> DeviceDomains \<Rightarrow> domain \<times> DeviceDomains"
and MakeDomains :: "relay_type list \<Rightarrow> SEScope \<Rightarrow> DeviceDomains \<Rightarrow> domain list \<times> DeviceDomains"
where
  "MakeDomain ValueType s D = MakeFirstOrderDomain s D"
| "MakeDomain (FuncType arg_types ret_type) s D =
     (case MakeDomains arg_types s D of
        (ps, D1) \<Rightarrow>
          (case MakeDomain ret_type s D1 of
             (r, D2) \<Rightarrow> (HigherOrder ps r, D2)))"
| "MakeDomains [] s D = ([], D)"
| "MakeDomains (t # ts) s D =
     (case MakeDomain t s D of
        (d, D1) \<Rightarrow>
          (case MakeDomains ts s D1 of
             (ds, D2) \<Rightarrow> (d # ds, D2)))"

definition Free :: "relay_type \<Rightarrow> DeviceDomains \<Rightarrow> domain \<times> DeviceDomains" where
  "Free t D = MakeDomain t FullyUnconstrained D"

definition ForSEScope :: "relay_type \<Rightarrow> SEScope \<Rightarrow> DeviceDomains \<Rightarrow> domain \<times> DeviceDomains" where
  "ForSEScope t s D = MakeDomain t (CanonicalSEScope (config D) s) D"

text \<open>
  Modelled from the spec: what the planner reads off the types of the program, which type
  inference fills in before the pass: the checked type of every expression, and for the
  primitives with a bespoke shape ("shape_of", "shape_func", "reshape_tensor",
  "alloc_storage", "alloc_tensor") which argument positions are shape-typed and whether
  the result is.
\<close>

record Typing =
  checked_type :: "expr \<Rightarrow> relay_type"
  shape_typed :: "string \<Rightarrow> (bool list \<times> bool) option"

definition remember_expr :: "expr \<Rightarrow> domain \<times> DeviceDomains \<Rightarrow> domain \<times> DeviceDomains" where
  "remember_expr e r =
     (fst r, (snd r)\<lparr>expr_to_domain := (expr_to_domain (snd r))(e \<mapsto> fst r)\<rparr>)"

definition remember_callee :: "expr \<Rightarrow> domain \<times> DeviceDomains \<Rightarrow> domain \<times> DeviceDomains" where
  "remember_callee e r =
     (fst r, (snd r)\<lparr>call_to_callee_domain := (call_to_callee_domain (snd r))(e \<mapsto> fst r)\<rparr>)"

definition DomainFor :: "Typing \<Rightarrow> expr \<Rightarrow> DeviceDomains \<Rightarrow> domain \<times> DeviceDomains" where
  "DomainFor T e D =
     (case expr_to_domain D e of
        Some d \<Rightarrow> (d, D)
      | None \<Rightarrow> remember_expr e (Free (checked_type T e) D))"

text \<open>
  Modelled from the spec: \<open>DomainFor\<close> and \<open>DomainForCallee\<close>. The domain of an expression
  is allocated from its checked type when it is first asked for. An "on_device" call has its argument, and if
  \<open>is_fixed\<close> its result, at the scope of the annotation. A "device_copy" call has its
  argument at the source and its result at the destination scope. A primitive with a
  bespoke shape has its shape-typed positions at the host scope and its other positions
  free. Any other primitive and a constructor have one free first-order domain for all
  arguments and the result. For any other callee the domain is that of the callee
  expression.
\<close>

fun HostOrFree :: "bool list \<Rightarrow> DeviceDomains \<Rightarrow> domain list \<times> DeviceDomains" where
  "HostOrFree [] D = ([], D)"
| "HostOrFree (is_shape # rest) D =
     (case (if is_shape then ForSEScope ValueType (host_se_scope (config D)) D
            else Free ValueType D) of
        (d, D1) \<Rightarrow>
          (case HostOrFree rest D1 of
             (ds, D2) \<Rightarrow> (d # ds, D2)))"

definition HomogeneousDomain :: "nat \<Rightarrow> DeviceDomains \<Rightarrow> domain \<times> DeviceDomains" where
  "HomogeneousDomain n D =
     (case Free ValueType D of
        (d, D1) \<Rightarrow> (HigherOrder (replicate n d) d, D1))"

definition PrimitiveDomain :: "Typing \<Rightarrow> string \<Rightarrow> nat \<Rightarrow> DeviceDomains \<Rightarrow> domain \<times> DeviceDomains" where
  "PrimitiveDomain T name n D =
     (case shape_typed T name of
        Some (arg_flags, result_flag) \<Rightarrow>
          (case HostOrFree arg_flags D of
             (ps, D1) \<Rightarrow>
               (case HostOrFree [result_flag] D1 of
                  (rs, D2) \<Rightarrow> (HigherOrder ps (hd rs), D2)))
      | None \<Rightarrow> HomogeneousDomain n D)"

definition DomainForCallee :: "Typing \<Rightarrow> expr \<Rightarrow> DeviceDomains \<Rightarrow> domain \<times> DeviceDomains" where
  "DomainForCallee T call D =
     (case call_to_callee_domain D call of
        Some d \<Rightarrow> (d, D)
      | None \<Rightarrow>
          (case GetOnDeviceProps call of
             Some (body, s, is_fixed) \<Rightarrow>
               (case ForSEScope (checked_type T body) s D of
                  (arg, D1) \<Rightarrow>
                    (case (if is_fixed then ForSEScope (checked_type T body) s D1
                           else Free (checked_type T body) D1) of
                       (res, D2) \<Rightarrow> remember_callee call (HigherOrder [arg] res, D2)))
           | None \<Rightarrow>
               (case GetDeviceCopyProps call of
                  Some (body, src, dst) \<Rightarrow>
                    (case ForSEScope (checked_type T body) src D of
                       (arg, D1) \<Rightarrow>
                         (case ForSEScope (checked_type T body) dst D1 of
                            (res, D2) \<Rightarrow> remember_callee call (HigherOrder [arg] res, D2)))
                | None \<Rightarrow>
                    (case call of
                       Call (Op name) args a \<Rightarrow>
                         remember_callee call (PrimitiveDomain T name (length args) D)
                     | Call (Constructor name) args a \<Rightarrow>
                         remember_callee call (HomogeneousDomain (length args) D)
                     | _ \<Rightarrow> DomainFor T (callee_of call) D))))"

text \<open>
  Modelled from the spec: printing, and the unifications of the domain of an expression
  that are fatal when they fail. The error carries the expressions and the printed form
  of both domains.
\<close>

fun ToString :: "DeviceDomains \<Rightarrow> domain \<Rightarrow> printed_domain" where
  "ToString D (FirstOrder n) = PrintedScope (node_scope D n)"
| "ToString D (HigherOrder ps r) = PrintedFn (map (ToString D) ps) (ToString D r)"

definition UnifyExprExact :: "Typing \<Rightarrow> expr \<Rightarrow> domain \<Rightarrow> DeviceDomains \<Rightarrow> error + DeviceDomains" where
  "UnifyExprExact T e d D =
     (case DomainFor T e D of
        (actual, D1) \<Rightarrow>
          (case UnifyOrNull actual d D1 of
             None \<Rightarrow>
               Inl (IncompatibleScopes ''Incompatible SEScopes for expression''
                      [e] [ToString D1 actual, ToString D1 d])
           | Some D2 \<Rightarrow> Inr D2))"

definition UnifyExprsExact :: "Typing \<Rightarrow> expr \<Rightarrow> expr \<Rightarrow> DeviceDomains \<Rightarrow> error + DeviceDomains" where
  "UnifyExprsExact T lhs rhs D =
     (case DomainFor T lhs D of
        (lhs_domain, D1) \<Rightarrow>
          (case DomainFor T rhs D1 of
             (rhs_domain, D2) \<Rightarrow>
               (case UnifyOrNull lhs_domain rhs_domain D2 of
                  None \<Rightarrow>
                    Inl (IncompatibleScopes ''Incompatible SEScopes for expressions''
                           [lhs, rhs] [ToString D2 lhs_domain, ToString D2 rhs_domain])
                | Some D3 \<Rightarrow> Inr D3)))"

definition UnifyExprCollapsed :: "Typing \<Rightarrow> expr \<Rightarrow> domain \<Rightarrow> DeviceDomains \<Rightarrow> error + DeviceDomains" where
  "UnifyExprCollapsed T e d D =
     (case DomainFor T e D of
        (actual, D1) \<Rightarrow>
          (case UnifyCollapsedOrNull actual d D1 of
             None \<Rightarrow>
               Inl (IncompatibleScopes ''Incompatible SEScopes for expression''
                      [e] [ToString D1 actual, ToString D1 d])
           | Some D2 \<Rightarrow> Inr D2))"

text \<open>
  Modelled from the spec: defaulting. \<open>SetDefault\<close> fills every leaf of a domain from the
  default. \<open>SetResultDefaultThenParams\<close> defaults the result position first, recursively,
  and then every parameter domain to the result scope that the first step has fixed.
\<close>

definition IsFullyConstrained :: "DeviceDomains \<Rightarrow> domain \<Rightarrow> bool" where
  "IsFullyConstrained D d = list_all (\<lambda>n. IsFullyConstrainedScope (node_scope D n)) (leaves d)"

definition SetDefaultNode :: "SEScope \<Rightarrow> nat \<Rightarrow> DeviceDomains \<Rightarrow> DeviceDomains" where
  "SetDefaultNode dflt n D =
     D\<lparr>se_scope_of := (se_scope_of D)
          (representative D n := DefaultSEScope (node_scope D n) dflt)\<rparr>"

definition SetDefault :: "domain \<Rightarrow> SEScope \<Rightarrow> DeviceDomains \<Rightarrow> DeviceDomains" where
  "SetDefault d dflt D = fold (SetDefaultNode dflt) (leaves d) D"

fun SetResultDefaultThenParams :: "domain \<Rightarrow> SEScope \<Rightarrow> DeviceDomains \<Rightarrow> DeviceDomains" where
  "SetResultDefaultThenParams (FirstOrder n) dflt D = SetDefault (FirstOrder n) dflt D"
| "SetResultDefaultThenParams (HigherOrder ps r) dflt D =
     (let D1 = SetResultDefaultThenParams r dflt D
      in fold (\<lambda>p. SetDefault p (ResultSEScope D1 (HigherOrder ps r))) ps D1)"

definition new_domains :: "CompilationConfig \<Rightarrow> DeviceDomains" where
  "new_domains cfg =
     \<lparr>config = cfg, expr_to_domain = (\<lambda>e. None), call_to_callee_domain = (\<lambda>e. None),
      representative = (\<lambda>n. n), se_scope_of = (\<lambda>n. FullyUnconstrained), next_node = 0\<rparr>"

text \<open>The size of the clauses of a match, for the termination proofs.\<close>

lemma size_list_clauses:
  "size_list (size_prod (\<lambda>p. 0) size) cs = size_list (\<lambda>c. Suc (size (snd c))) cs"
  by (induction cs) (auto simp: size_prod_simp)

subsection \<open>Phase 1: DeviceAnalyzer\<close>

text \<open>
  The visits of the analyzer thread the store; a fatal error ends the analysis.
  \<open>and_then\<close> runs the next step on the result of a step that did not fail. The visit
  counter of the \<open>ExprVisitor\<close>, which skips a node that was visited before, is left out: a
  second visit finds the domains of the node unified already.
\<close>

definition and_then :: "error + 'a \<Rightarrow> ('a \<Rightarrow> error + 'b) \<Rightarrow> error + 'b" where
  "and_then m f = (case m of Inl err \<Rightarrow> Inl err | Inr x \<Rightarrow> f x)"

lemma and_then_cong [fundef_cong]:
  "m = m' \<Longrightarrow> (\<And>x. m' = Inr x \<Longrightarrow> f x = f' x) \<Longrightarrow> and_then m f = and_then m' f'"
  by (auto simp: and_then_def split: sum.splits)

lemma and_then_simps [simp]:
  "and_then (Inl err) f = Inl err"
  "and_then (Inr x) f = f x"
  by (simp_all add: and_then_def)

fun Analyzer_VisitParams ::
  "Typing \<Rightarrow> string list \<Rightarrow> domain list \<Rightarrow> DeviceDomains \<Rightarrow> error + DeviceDomains" where
  "Analyzer_VisitParams T [] ds D = Inr D"
| "Analyzer_VisitParams T (p # ps) [] D =
     Inl (InternalCheck ''function_param index out of range'')"
| "Analyzer_VisitParams T (p # ps) (d # ds) D =
     and_then (UnifyExprExact T (Var p) d D)
       (\<lambda>D1. Analyzer_VisitParams T ps ds (snd (DomainFor T (Var p) D1)))"

fun pattern_vars :: "pattern \<Rightarrow> string list" where
  "pattern_vars PatternWildcard = []"
| "pattern_vars (PatternVar v) = [v]"
| "pattern_vars (PatternConstructor c ps) = concat (map pattern_vars ps)"
| "pattern_vars (PatternTuple ps) = concat (map pattern_vars ps)"

fun Analyzer_VisitPatternVars ::
  "Typing \<Rightarrow> expr \<Rightarrow> string list \<Rightarrow> DeviceDomains \<Rightarrow> error + DeviceDomains" where
  "Analyzer_VisitPatternVars T adt [] D = Inr D"
| "Analyzer_VisitPatternVars T adt (v # vs) D =
     (case DomainFor T (Var v) D of
        (var_domain, D1) \<Rightarrow>
          and_then (UnifyExprCollapsed T adt var_domain D1)
            (\<lambda>D2. Analyzer_VisitPatternVars T adt vs D2))"

text \<open>
  Modelled from the spec: \<open>GetFunctionResultSEScope\<close> and \<open>GetFunctionParamSEScope\<close> of
  op/memory/on\_device.h read the "result_se_scope" and "param_se_scopes" attributes of
  a function; a function without the attribute has fully unconstrained scopes.
\<close>

definition GetFunctionResultSEScope :: "func_attrs \<Rightarrow> SEScope" where
  "GetFunctionResultSEScope a =
     (case result_se_scope a of Some s \<Rightarrow> s | None \<Rightarrow> FullyUnconstrained)"

definition GetFunctionParamSEScopes :: "func_attrs \<Rightarrow> nat \<Rightarrow> error + SEScope list" where
  "GetFunctionParamSEScopes a n =
     (case param_se_scopes a of
        None \<Rightarrow> Inr (replicate n FullyUnconstrained)
      | Some ss \<Rightarrow>
          if length ss = n then Inr ss
          else Inl (InternalCheck ''param_se_scopes.size() == params.size()''))"

fun ForSEScopes ::
  "Typing \<Rightarrow> string list \<Rightarrow> SEScope list \<Rightarrow> DeviceDomains \<Rightarrow> domain list \<times> DeviceDomains" where
  "ForSEScopes T (p # ps) (s # ss) D =
     (case ForSEScope (checked_type T (Var p)) s D of
        (d, D1) \<Rightarrow>
          (case ForSEScopes T ps ss D1 of
             (ds, D2) \<Rightarrow> (d # ds, D2)))"
| "ForSEScopes T ps ss D = ([], D)"

definition UnifyWithAttributes ::
  "Typing \<Rightarrow> expr \<Rightarrow> string list \<Rightarrow> expr \<Rightarrow> func_attrs \<Rightarrow> domain \<Rightarrow> DeviceDomains
     \<Rightarrow> error + DeviceDomains" where
  "UnifyWithAttributes T function ps body a func_domain D =
     (if IsFullyUnconstrained (GetFunctionResultSEScope a) then Inr D
      else and_then (GetFunctionParamSEScopes a (length ps))
        (\<lambda>param_scopes.
           case ForSEScopes T ps param_scopes D of
             (args, D1) \<Rightarrow>
               (case ForSEScope (checked_type T body) (GetFunctionResultSEScope a) D1 of
                  (result, D2) \<Rightarrow>
                    (case UnifyOrNull func_domain (HigherOrder args result) D2 of
                       None \<Rightarrow>
                         Inl (IncompatibleScopes
                                ''Function SEScopes are incompatible with its on_device annotation''
                                [function]
                                [ToString D2 func_domain, ToString D2 (HigherOrder args result)])
                     | Some D3 \<Rightarrow> Inr D3))))"

function Analyzer_VisitExpr :: "Typing \<Rightarrow> expr \<Rightarrow> DeviceDomains \<Rightarrow> error + DeviceDomains"
and Analyzer_VisitArgs ::
  "Typing \<Rightarrow> expr list \<Rightarrow> DeviceDomains \<Rightarrow> error + (domain list \<times> DeviceDomains)"
and Analyzer_VisitFields ::
  "Typing \<Rightarrow> expr \<Rightarrow> expr list \<Rightarrow> DeviceDomains \<Rightarrow> error + DeviceDomains"
and Analyzer_VisitClauses ::
  "Typing \<Rightarrow> expr \<Rightarrow> domain \<Rightarrow> (pattern \<times> expr) list \<Rightarrow> DeviceDomains
     \<Rightarrow> error + DeviceDomains"
where
  "Analyzer_VisitExpr T (Call f args a) D =
     and_then (Analyzer_VisitExpr T f D)
       (\<lambda>D1. case DomainForCallee T (Call f args a) D1 of
          (func_domain, D2) \<Rightarrow>
            if function_arity func_domain \<noteq> Some (length args)
            then Inl (InternalCheck ''func_domain->function_arity() == args.size()'')
            else and_then (Analyzer_VisitArgs T args D2)
              (\<lambda>r. case DomainFor T (Call f args a) (snd r) of
                 (call_domain, D4) \<Rightarrow>
                   (case UnifyOrNull func_domain (HigherOrder (fst r) call_domain) D4 of
                      None \<Rightarrow>
                        Inl (IncompatibleScopes
                               ''Function parameters and result SEScopes do not match those of call''
                               [Call f args a]
                               [ToString D4 func_domain,
                                ToString D4 (HigherOrder (fst r) call_domain)])
                    | Some D5 \<Rightarrow> Inr D5)))"
| "Analyzer_VisitExpr T (Let x v b) D =
     and_then (UnifyExprsExact T (Var x) v D)
       (\<lambda>D1. and_then (UnifyExprsExact T (Let x v b) b D1)
          (\<lambda>D2. and_then (Analyzer_VisitExpr T v (snd (DomainFor T (Var x) D2)))
             (\<lambda>D3. Analyzer_VisitExpr T b D3)))"
| "Analyzer_VisitExpr T (Function ps body a) D =
     (if primitive a \<noteq> 0 then Inr D
      else case DomainFor T (Function ps body a) D of
        (func_domain, D1) \<Rightarrow>
          if function_arity func_domain = None
          then Inl (InternalCheck ''function_result of a first-order domain'')
          else and_then (UnifyExprExact T body (function_result func_domain) D1)
            (\<lambda>D2. if function_arity func_domain \<noteq> Some (length ps)
               then Inl (InternalCheck ''func_domain->function_arity() == params.size()'')
               else and_then (Analyzer_VisitParams T ps (function_params func_domain) D2)
                 (\<lambda>D3. and_then
                    (UnifyWithAttributes T (Function ps body a) ps body a func_domain D3)
                    (\<lambda>D4. Analyzer_VisitExpr T body D4))))"
| "Analyzer_VisitExpr T (Tuple fs) D = Analyzer_VisitFields T (Tuple fs) fs D"
| "Analyzer_VisitExpr T (TupleGetItem t i) D =
     (case DomainFor T (TupleGetItem t i) D of
        (d, D1) \<Rightarrow>
          and_then (UnifyExprCollapsed T t d D1) (\<lambda>D2. Analyzer_VisitExpr T t D2))"
| "Analyzer_VisitExpr T (Match d cs complete) D =
     (case DomainFor T (Match d cs complete) D of
        (match_domain, D1) \<Rightarrow>
          and_then (UnifyExprCollapsed T d match_domain D1)
            (\<lambda>D2. and_then (Analyzer_VisitClauses T d match_domain cs D2)
               (\<lambda>D3. Analyzer_VisitExpr T d D3)))"
| "Analyzer_VisitExpr T (GlobalVar g) D = Inr (snd (DomainFor T (GlobalVar g) D))"
| "Analyzer_VisitExpr T (Var x) D = Inr (snd (DomainFor T (Var x) D))"
| "Analyzer_VisitExpr T (Constant c) D = Inr (snd (DomainFor T (Constant c) D))"
| "Analyzer_VisitExpr T (Constructor n) D = Inr D"
| "Analyzer_VisitExpr T (If c t f) D =
     (case DomainFor T (If c t f) D of
        (d, D1) \<Rightarrow>
          and_then (UnifyExprCollapsed T c d D1)
            (\<lambda>D2. and_then (UnifyExprExact T t d D2)
               (\<lambda>D3. and_then (UnifyExprExact T f d D3)
                  (\<lambda>D4. and_then (Analyzer_VisitExpr T c D4)
                     (\<lambda>D5. and_then (Analyzer_VisitExpr T t D5)
                        (\<lambda>D6. Analyzer_VisitExpr T f D6))))))"
| "Analyzer_VisitExpr T (Op n) D = Inr D"
| "Analyzer_VisitExpr T (RefCreate v) D =
     (case DomainFor T v D of
        (d, D1) \<Rightarrow>
          and_then (UnifyExprCollapsed T (RefCreate v) d D1)
            (\<lambda>D2. Analyzer_VisitExpr T v D2))"
| "Analyzer_VisitExpr T (RefRead r) D =
     (case DomainFor T (RefRead r) D of
        (d, D1) \<Rightarrow>
          and_then (UnifyExprCollapsed T r d D1) (\<lambda>D2. Analyzer_VisitExpr T r D2))"
| "Analyzer_VisitExpr T (RefWrite r v) D =
     (case DomainFor T v D of
        (d, D1) \<Rightarrow>
          and_then (UnifyExprCollapsed T r d D1)
            (\<lambda>D2. and_then (UnifyExprCollapsed T (RefWrite r v) d D2)
               (\<lambda>D3. and_then (Analyzer_VisitExpr T r D3)
                  (\<lambda>D4. Analyzer_VisitExpr T v D4))))"
| "Analyzer_VisitArgs T [] D = Inr ([], D)"
| "Analyzer_VisitArgs T (arg # args) D =
     (case DomainFor T arg D of
        (d, D1) \<Rightarrow>
          and_then (Analyzer_VisitExpr T arg D1)
            (\<lambda>D2. and_then (Analyzer_VisitArgs T args D2)
               (\<lambda>r. Inr (d # fst r, snd r))))"
| "Analyzer_VisitFields T tuple [] D = Inr D"
| "Analyzer_VisitFields T tuple (f # fs) D =
     (case DomainFor T f D of
        (d, D1) \<Rightarrow>
          and_then (UnifyExprCollapsed T tuple d D1)
            (\<lambda>D2. and_then (Analyzer_VisitExpr T f D2)
               (\<lambda>D3. Analyzer_VisitFields T tuple fs D3)))"
| "Analyzer_VisitClauses T adt match_domain [] D = Inr D"
| "Analyzer_VisitClauses T adt match_domain (clause # clauses) D =
     and_then (Analyzer_VisitPatternVars T adt (pattern_vars (fst clause)) D)
       (\<lambda>D1. and_then (UnifyExprExact T (snd clause) match_domain D1)
          (\<lambda>D2. and_then (Analyzer_VisitExpr T (snd clause) D2)
             (\<lambda>D3. Analyzer_VisitClauses T adt match_domain clauses D3)))"
  by pat_completeness auto
termination
  by (relation "measure
        (case_sum
           (case_sum (\<lambda>(T, e, D). 2 * size e)
              (\<lambda>(T, args, D). 2 * size_list size args + 1))
           (case_sum (\<lambda>(T, tuple, fs, D). 2 * size_list size fs + 1)
              (\<lambda>(T, adt, d, cs, D). 2 * size_list (\<lambda>c. Suc (size (snd c))) cs + 1)))")
     (auto simp: size_list_clauses)

fun Analyzer_VisitFunctions ::
  "Typing \<Rightarrow> (string \<times> expr) list \<Rightarrow> DeviceDomains \<Rightarrow> error + DeviceDomains" where
  "Analyzer_VisitFunctions T [] D = Inr D"
| "Analyzer_VisitFunctions T (pair # rest) D =
     and_then (UnifyExprsExact T (GlobalVar (fst pair)) (snd pair) D)
       (\<lambda>D1. and_then (Analyzer_VisitExpr T (snd pair) D1)
          (\<lambda>D2. Analyzer_VisitFunctions T rest D2))"

definition Analyze :: "Typing \<Rightarrow> CompilationConfig \<Rightarrow> IRModule \<Rightarrow> error + DeviceDomains" where
  "Analyze T cfg m = Analyzer_VisitFunctions T (functions_map m) (new_domains cfg)"

subsection \<open>Phase 2: DeviceDefaulter\<close>

text \<open>
  The defaulter overrides the visits of functions, calls and lets; every other node is
  traversed as the \<open>ExprVisitor\<close> does, child by child.
\<close>

definition DefaultCallee :: "domain \<Rightarrow> DeviceDomains \<Rightarrow> DeviceDomains" where
  "DefaultCallee func_domain D =
     (if \<not> IsFullyConstrained D func_domain
      then SetResultDefaultThenParams func_domain (default_primitive_se_scope (config D)) D
      else D)"

function Defaulter_VisitExpr :: "Typing \<Rightarrow> expr \<Rightarrow> DeviceDomains \<Rightarrow> error + DeviceDomains"
and Defaulter_VisitExprs :: "Typing \<Rightarrow> expr list \<Rightarrow> DeviceDomains \<Rightarrow> error + DeviceDomains"
and Defaulter_VisitClauses ::
  "Typing \<Rightarrow> (pattern \<times> expr) list \<Rightarrow> DeviceDomains \<Rightarrow> error + DeviceDomains"
where
  "Defaulter_VisitExpr T (Function ps body a) D =
     (if primitive a \<noteq> 0 then Inr D
      else case DomainFor T (Function ps body a) D of
        (func_domain, D1) \<Rightarrow>
          if function_arity func_domain \<noteq> Some (length ps)
          then Inl (InternalCheck ''func_domain->function_arity() == params.size()'')
          else Defaulter_VisitExpr T body (DefaultCallee func_domain D1))"
| "Defaulter_VisitExpr T (Call f args a) D =
     (case DomainForCallee T (Call f args a) D of
        (func_domain, D1) \<Rightarrow>
          if function_arity func_domain \<noteq> Some (length args)
          then Inl (InternalCheck ''func_domain->function_arity() == args.size()'')
          else and_then (Defaulter_VisitExpr T f (DefaultCallee func_domain D1))
                 (\<lambda>D2. Defaulter_VisitExprs T args D2))"
| "Defaulter_VisitExpr T (Let x v b) D =
     (case DomainFor T (Let x v b) D of
        (let_domain, D1) \<Rightarrow>
          if IsFullyUnconstrained (ResultSEScope D1 let_domain)
          then Inl (InternalCheck ''let_se_scope is fully unconstrained'')
          else (case DomainFor T (Var x) D1 of
                  (let_var_domain, D2) \<Rightarrow>
                    and_then
                      (Defaulter_VisitExpr T v
                         (if \<not> IsFullyConstrained D2 let_var_domain
                          then SetDefault let_var_domain (ResultSEScope D1 let_domain) D2
                          else D2))
                      (\<lambda>D3. Defaulter_VisitExpr T b D3)))"
| "Defaulter_VisitExpr T (Tuple fs) D = Defaulter_VisitExprs T fs D"
| "Defaulter_VisitExpr T (TupleGetItem t i) D = Defaulter_VisitExpr T t D"
| "Defaulter_VisitExpr T (If c t f) D =
     and_then (Defaulter_VisitExpr T c D)
       (\<lambda>D1. and_then (Defaulter_VisitExpr T t D1)
          (\<lambda>D2. Defaulter_VisitExpr T f D2))"
| "Defaulter_VisitExpr T (Match d cs complete) D =
     and_then (Defaulter_VisitExpr T d D) (\<lambda>D1. Defaulter_VisitClauses T cs D1)"
| "Defaulter_VisitExpr T (RefCreate v) D = Defaulter_VisitExpr T v D"
| "Defaulter_VisitExpr T (RefRead r) D = Defaulter_VisitExpr T r D"
| "Defaulter_VisitExpr T (RefWrite r v) D =
     and_then (Defaulter_VisitExpr T r D) (\<lambda>D1. Defaulter_VisitExpr T v D1)"
| "Defaulter_VisitExpr T (Var x) D = Inr D"
| "Defaulter_VisitExpr T (GlobalVar g) D = Inr D"
| "Defaulter_VisitExpr T (Constant c) D = Inr D"
| "Defaulter_VisitExpr T (Op n) D = Inr D"
| "Defaulter_VisitExpr T (Constructor n) D = Inr D"
| "Defaulter_VisitExprs T [] D = Inr D"
| "Defaulter_VisitExprs T (e # es) D =
     and_then (Defaulter_VisitExpr T e D) (\<lambda>D1. Defaulter_VisitExprs T es D1)"
| "Defaulter_VisitClauses T [] D = Inr D"
| "Defaulter_VisitClauses T (clause # clauses) D =
     and_then (Defaulter_VisitExpr T (snd clause) D)
       (\<lambda>D1. Defaulter_VisitClauses T clauses D1)"
  by pat_completeness auto
termination
  by (relation "measure
        (case_sum (\<lambda>(T, e, D). 2 * size e)
           (case_sum (\<lambda>(T, es, D). 2 * size_list size es + 1)
              (\<lambda>(T, cs, D). 2 * size_list (\<lambda>c. Suc (size (snd c))) cs + 1)))")
     (auto simp: size_list_clauses)

fun Defaulter_VisitFunctions ::
  "Typing \<Rightarrow> (string \<times> expr) list \<Rightarrow> DeviceDomains \<Rightarrow> error + DeviceDomains" where
  "Defaulter_VisitFunctions T [] D = Inr D"
| "Defaulter_VisitFunctions T (pair # rest) D =
     and_then (Defaulter_VisitExpr T (snd pair) D)
       (\<lambda>D1. Defaulter_VisitFunctions T rest D1)"

definition Default :: "Typing \<Rightarrow> IRModule \<Rightarrow> DeviceDomains \<Rightarrow> error + DeviceDomains" where
  "Default T m D = Defaulter_VisitFunctions T (functions_map m) D"

subsection \<open>Phase 3: DeviceCapturer\<close>

text \<open>
  The capturer only reads the store. Where the C++ \<open>DomainFor\<close> or \<open>DomainForCallee\<close> would
  allocate a fresh, unconstrained domain for an expression the analyzer never saw, the
  \<open>ICHECK\<close> that follows the lookup fails; the read-only lookups below return that failure
  at once.
\<close>

definition DomainFor_ro :: "DeviceDomains \<Rightarrow> expr \<Rightarrow> error + domain" where
  "DomainFor_ro D e =
     (case expr_to_domain D e of
        Some d \<Rightarrow> Inr d
      | None \<Rightarrow> Inl (InternalCheck ''no domain for expression''))"

definition DomainForCallee_ro :: "DeviceDomains \<Rightarrow> expr \<Rightarrow> error + domain" where
  "DomainForCallee_ro D call =
     (case call_to_callee_domain D call of
        Some d \<Rightarrow> Inr d
      | None \<Rightarrow>
          if is_op_or_constructor (callee_of call)
          then Inl (InternalCheck ''no domain for callee'')
          else DomainFor_ro D (callee_of call))"

definition GetSEScope :: "DeviceDomains \<Rightarrow> expr \<Rightarrow> error + SEScope" where
  "GetSEScope D e =
     (let true_expr = (case GetOnDeviceProps e of Some (body, s, is_fixed) \<Rightarrow> body | None \<Rightarrow> e)
      in case expr_to_domain D true_expr of
           None \<Rightarrow> Inl (InternalCheck ''domains_->contains(true_expr)'')
         | Some d \<Rightarrow>
             if IsFullyUnconstrained (ResultSEScope D d)
             then Inl (InternalCheck ''no SEScope was determined for expression'')
             else Inr (ResultSEScope D d))"

text \<open>
  Modelled from the spec: \<open>MaybeOnDevice\<close> and \<open>FunctionOnDevice\<close> of
  op/memory/on\_device.h, which is not part of the sources. \<open>MaybeOnDevice\<close> wraps an
  expression in an "on_device" call, except that "on_device" never wraps a variable
  reference or a global reference. \<open>FunctionOnDevice\<close> produces the function carrying the
  "param_se_scopes" and "result_se_scope" attributes.
\<close>

fun MaybeOnDevice :: "expr \<Rightarrow> SEScope \<Rightarrow> bool \<Rightarrow> expr" where
  "MaybeOnDevice (Var x) s is_fixed = Var x"
| "MaybeOnDevice (GlobalVar g) s is_fixed = GlobalVar g"
| "MaybeOnDevice e s is_fixed = OnDevice e s is_fixed"

fun FunctionOnDevice :: "expr \<Rightarrow> SEScope list \<Rightarrow> SEScope \<Rightarrow> expr" where
  "FunctionOnDevice (Function ps body a) param_scopes result_scope =
     Function ps body (FuncAttrs (primitive a) (Some param_scopes) (Some result_scope))"
| "FunctionOnDevice e param_scopes result_scope = e"

text \<open>
  The scopes of the parameters of a function domain, each checked as the loops of the
  function visit and of the call visit do.
\<close>

fun param_se_scopes_of :: "DeviceDomains \<Rightarrow> domain list \<Rightarrow> error + SEScope list" where
  "param_se_scopes_of D [] = Inr []"
| "param_se_scopes_of D (p # ps) =
     (if IsFullyUnconstrained (ResultSEScope D p)
      then Inl (InternalCheck ''param_se_scope is fully unconstrained'')
      else case param_se_scopes_of D ps of
             Inl e \<Rightarrow> Inl e
           | Inr ss \<Rightarrow> Inr (ResultSEScope D p # ss))"

lemma GetOnDeviceProps_size [termination_simp]:
  "GetOnDeviceProps e = Some (body, s, is_fixed) \<Longrightarrow> size body < size e"
  by (induction e rule: GetOnDeviceProps.induct) (auto split: if_splits)

lemma GetDeviceCopyProps_size [termination_simp]:
  "GetDeviceCopyProps e = Some (body, src, dst) \<Longrightarrow> size body < size e"
  by (induction e rule: GetDeviceCopyProps.induct) (auto split: if_splits)

text \<open>
  The visits of the capturer. \<open>VisitChild\<close> is the four-argument overload and
  \<open>VisitChildOf\<close> the overload that takes the parent. \<open>VisitFields\<close>, \<open>VisitArgs\<close> and
  \<open>VisitClauses\<close> are the loops over the fields of a tuple, the arguments of a call and
  the clauses of a match. In the visit of a "device_copy" call \<open>src_se_scope\<close> and
  \<open>dst_se_scope\<close> are written out as the canonical scopes they are bound to. The let visit
  walks the chain of lets: its first iteration is in \<open>VisitExpr\<close> (the test that breaks
  the loop compares the scope of the first let with itself), each later iteration is a call
  of \<open>VisitLets\<close>, which also visits the body once the chain ends or the scope changes.
\<close>

fun as_let :: "expr \<Rightarrow> (string \<times> expr \<times> expr) option" where
  "as_let (Let x v b) = Some (x, v, b)"
| "as_let e = None"

lemma as_let_Some: "as_let e = Some (x, v, b) \<Longrightarrow> e = Let x v b"
  by (cases e) auto

function VisitExpr :: "DeviceDomains \<Rightarrow> expr \<Rightarrow> error + expr"
and VisitChild :: "DeviceDomains \<Rightarrow> SEScope \<Rightarrow> SEScope \<Rightarrow> SEScope \<Rightarrow> expr \<Rightarrow> error + expr"
and VisitChildOf :: "DeviceDomains \<Rightarrow> expr \<Rightarrow> expr \<Rightarrow> error + expr"
and VisitFields :: "DeviceDomains \<Rightarrow> expr \<Rightarrow> expr list \<Rightarrow> error + expr list"
and VisitArgs :: "DeviceDomains \<Rightarrow> SEScope \<Rightarrow> domain list \<Rightarrow> expr list \<Rightarrow> error + expr list"
and VisitClauses :: "DeviceDomains \<Rightarrow> expr \<Rightarrow> (pattern \<times> expr) list \<Rightarrow> error + (pattern \<times> expr) list"
and VisitLets :: "DeviceDomains \<Rightarrow> SEScope \<Rightarrow> expr \<Rightarrow> error + expr"
where
  "VisitExpr D (Var x) = Inr (Var x)"
| "VisitExpr D (GlobalVar g) = Inr (GlobalVar g)"
| "VisitExpr D (Constant c) = Inr (Constant c)"
| "VisitExpr D (Op n) = Inr (Op n)"
| "VisitExpr D (Constructor n) = Inr (Constructor n)"
| "VisitExpr D (Tuple fs) =
     (case VisitFields D (Tuple fs) fs of
        Inl err \<Rightarrow> Inl err
      | Inr fs' \<Rightarrow> Inr (Tuple fs'))"
| "VisitExpr D (Function ps body a) =
     (if primitive a \<noteq> 0 then Inr (Function ps body a)
      else (case DomainFor_ro D (Function ps body a) of
        Inl err \<Rightarrow> Inl err
      | Inr func_domain \<Rightarrow>
          if function_arity func_domain \<noteq> Some (length ps)
          then Inl (InternalCheck ''func_domain->function_arity() == params.size()'')
          else if IsFullyUnconstrained (ResultSEScope D func_domain)
          then Inl (InternalCheck ''result_se_scope is fully unconstrained'')
          else (case param_se_scopes_of D (function_params func_domain) of
            Inl err \<Rightarrow> Inl err
          | Inr param_scopes \<Rightarrow>
              (case GetSEScope D body of
                 Inl err \<Rightarrow> Inl err
               | Inr child_se_scope \<Rightarrow>
                   (case VisitChild D (ResultSEScope D func_domain) (ResultSEScope D func_domain)
                           child_se_scope body of
                      Inl err \<Rightarrow> Inl err
                    | Inr body' \<Rightarrow>
                        Inr (FunctionOnDevice (Function ps body' a) param_scopes
                               (ResultSEScope D func_domain)))))))"
| "VisitExpr D (Call f args a) =
     (case GetSEScope D (Call f args a) of
        Inl err \<Rightarrow> Inl err
      | Inr call_se_scope \<Rightarrow>
          (case GetOnDeviceProps (Call f args a) of
             Some (body, s, is_fixed) \<Rightarrow> VisitExpr D body
           | None \<Rightarrow>
               (case GetDeviceCopyProps (Call f args a) of
                  Some (body, src, dst) \<Rightarrow>
                    (if call_se_scope \<noteq> CanonicalSEScope (config D) dst
                     then Inl (InternalCheck ''call_se_scope == dst_se_scope'')
                     else if CanonicalSEScope (config D) src = CanonicalSEScope (config D) dst
                     then VisitExpr D body
                     else VisitChild D (CanonicalSEScope (config D) dst)
                            (CanonicalSEScope (config D) dst)
                            (CanonicalSEScope (config D) src) body)
                | None \<Rightarrow>
                    (case DomainForCallee_ro D (Call f args a) of
                       Inl err \<Rightarrow> Inl err
                     | Inr func_domain \<Rightarrow>
                         if IsFullyUnconstrained (ResultSEScope D func_domain)
                         then Inl (InternalCheck ''result_se_scope is fully unconstrained'')
                         else (case VisitChild D call_se_scope call_se_scope
                                     (ResultSEScope D func_domain) f of
                           Inl err \<Rightarrow> Inl err
                         | Inr op \<Rightarrow>
                             if function_arity func_domain \<noteq> Some (length args)
                             then Inl (InternalCheck
                                        ''func_domain->function_arity() == args.size()'')
                             else (case VisitArgs D call_se_scope
                                         (function_params func_domain) args of
                               Inl err \<Rightarrow> Inl err
                             | Inr args' \<Rightarrow> Inr (Call op args' a)))))))"
| "VisitExpr D (Let x v b) =
     (case GetSEScope D (Let x v b) of
        Inl err \<Rightarrow> Inl err
      | Inr let_se_scope \<Rightarrow>
          (case GetSEScope D (Var x) of
             Inl err \<Rightarrow> Inl err
           | Inr var_se_scope \<Rightarrow>
               (case GetSEScope D v of
                  Inl err \<Rightarrow> Inl err
                | Inr value_se_scope \<Rightarrow>
                    (case VisitChild D let_se_scope var_se_scope value_se_scope v of
                       Inl err \<Rightarrow> Inl err
                     | Inr v' \<Rightarrow>
                         (case VisitLets D let_se_scope b of
                            Inl err \<Rightarrow> Inl err
                          | Inr b' \<Rightarrow> Inr (Let x v' b'))))))"
| "VisitExpr D (If c t f) =
     (case VisitChildOf D (If c t f) c of
        Inl err \<Rightarrow> Inl err
      | Inr c' \<Rightarrow>
          (case VisitChildOf D (If c t f) t of
             Inl err \<Rightarrow> Inl err
           | Inr t' \<Rightarrow>
               (case VisitChildOf D (If c t f) f of
                  Inl err \<Rightarrow> Inl err
                | Inr f' \<Rightarrow> Inr (If c' t' f'))))"
| "VisitExpr D (TupleGetItem t i) =
     (case VisitChildOf D (TupleGetItem t i) t of
        Inl err \<Rightarrow> Inl err
      | Inr t' \<Rightarrow> Inr (TupleGetItem t' i))"
| "VisitExpr D (RefCreate v) =
     (case VisitChildOf D (RefCreate v) v of
        Inl err \<Rightarrow> Inl err
      | Inr v' \<Rightarrow> Inr (RefCreate v'))"
| "VisitExpr D (RefRead r) =
     (case VisitChildOf D (RefRead r) r of
        Inl err \<Rightarrow> Inl err
      | Inr r' \<Rightarrow> Inr (RefRead r'))"
| "VisitExpr D (RefWrite r v) =
     (case VisitChildOf D (RefWrite r v) r of
        Inl err \<Rightarrow> Inl err
      | Inr r' \<Rightarrow>
          (case VisitChildOf D (RefWrite r v) v of
             Inl err \<Rightarrow> Inl err
           | Inr v' \<Rightarrow> Inr (RefWrite r' v')))"
| "VisitExpr D (Match d cs complete) =
     (case VisitChildOf D (Match d cs complete) d of
        Inl err \<Rightarrow> Inl err
      | Inr d' \<Rightarrow>
          (case VisitClauses D (Match d cs complete) cs of
             Inl err \<Rightarrow> Inl err
           | Inr cs' \<Rightarrow> Inr (Match d' cs' complete)))"
| "VisitChild D lexical_se_scope expected_se_scope child_se_scope child =
     (if IsFullyUnconstrained lexical_se_scope
      then Inl (InternalCheck ''lexical_se_scope is fully unconstrained'')
      else if IsFullyUnconstrained expected_se_scope
      then Inl (InternalCheck ''expected_se_scope is fully unconstrained'')
      else if is_op_or_constructor child then Inr child
      else (case VisitExpr D child of
        Inl err \<Rightarrow> Inl err
      | Inr result \<Rightarrow>
          (let result1 =
                 (if child_se_scope \<noteq> expected_se_scope
                  then DeviceCopy (MaybeOnDevice result child_se_scope True)
                         child_se_scope expected_se_scope
                  else result)
           in Inr (if expected_se_scope \<noteq> lexical_se_scope
                   then MaybeOnDevice result1 expected_se_scope True
                   else result1))))"
| "VisitChildOf D parent child =
     (case GetSEScope D parent of
        Inl err \<Rightarrow> Inl err
      | Inr expected_se_scope \<Rightarrow>
          (case GetSEScope D child of
             Inl err \<Rightarrow> Inl err
           | Inr child_se_scope \<Rightarrow>
               VisitChild D expected_se_scope expected_se_scope child_se_scope child))"
| "VisitFields D parent [] = Inr []"
| "VisitFields D parent (f # fs) =
     (case VisitChildOf D parent f of
        Inl err \<Rightarrow> Inl err
      | Inr f' \<Rightarrow>
          (case VisitFields D parent fs of
             Inl err \<Rightarrow> Inl err
           | Inr fs' \<Rightarrow> Inr (f' # fs')))"
| "VisitArgs D call_se_scope params [] = Inr []"
| "VisitArgs D call_se_scope params (arg # args) =
     (case params of
        [] \<Rightarrow> Inl (InternalCheck ''function_param index out of range'')
      | param # params' \<Rightarrow>
          if IsFullyUnconstrained (ResultSEScope D param)
          then Inl (InternalCheck ''param_se_scope is fully unconstrained'')
          else (case GetSEScope D arg of
            Inl err \<Rightarrow> Inl err
          | Inr arg_se_scope \<Rightarrow>
              (case VisitChild D call_se_scope (ResultSEScope D param) arg_se_scope arg of
                 Inl err \<Rightarrow> Inl err
               | Inr arg' \<Rightarrow>
                   (case VisitArgs D call_se_scope params' args of
                      Inl err \<Rightarrow> Inl err
                    | Inr args' \<Rightarrow> Inr (arg' # args')))))"
| "VisitClauses D parent [] = Inr []"
| "VisitClauses D parent (clause # clauses) =
     (case VisitChildOf D parent (snd clause) of
        Inl err \<Rightarrow> Inl err
      | Inr rhs \<Rightarrow>
          (case VisitClauses D parent clauses of
             Inl err \<Rightarrow> Inl err
           | Inr clauses' \<Rightarrow> Inr ((fst clause, rhs) # clauses')))"
| "VisitLets D let_se_scope e =
     (case as_let e of
        Some (x, v, b) \<Rightarrow>
          (case GetSEScope D e of
             Inl err \<Rightarrow> Inl err
           | Inr inner_se_scope \<Rightarrow>
               if inner_se_scope \<noteq> let_se_scope
               then VisitChild D let_se_scope let_se_scope inner_se_scope e
               else (case GetSEScope D (Var x) of
                 Inl err \<Rightarrow> Inl err
               | Inr var_se_scope \<Rightarrow>
                   (case GetSEScope D v of
                      Inl err \<Rightarrow> Inl err
                    | Inr value_se_scope \<Rightarrow>
                        (case VisitChild D let_se_scope var_se_scope value_se_scope v of
                           Inl err \<Rightarrow> Inl err
                         | Inr v' \<Rightarrow>
                             (case VisitLets D let_se_scope b of
                                Inl err \<Rightarrow> Inl err
                              | Inr b' \<Rightarrow> Inr (Let x v' b'))))))
      | None \<Rightarrow>
          (case GetSEScope D e of
             Inl err \<Rightarrow> Inl err
           | Inr child_se_scope \<Rightarrow>
               VisitChild D let_se_scope let_se_scope child_se_scope e))"
  by pat_completeness auto
termination
  by (relation "measure
        (case_sum
           (case_sum (\<lambda>(D, e). 3 * size e)
              (case_sum (\<lambda>(D, l, x, c, child). 3 * size child + 1)
                 (\<lambda>(D, p, child). 3 * size child + 2)))
           (case_sum
              (case_sum (\<lambda>(D, p, fs). 3 * size_list size fs + 2)
                 (\<lambda>(D, s, ps, args). 3 * size_list size args + 2))
              (case_sum (\<lambda>(D, p, cs). 3 * size_list (\<lambda>c. Suc (size (snd c))) cs + 2)
                 (\<lambda>(D, s, e). 3 * size e + 2))))")
     (auto dest: GetOnDeviceProps_size GetDeviceCopyProps_size as_let_Some simp: size_list_clauses)

subsection \<open>The rewritten module and the pass\<close>

text \<open>
  \<open>Capture\<close> builds its result from the type definitions, the imports and the source map of
  the input and adds every rewritten function under its name. \<open>PlanDevices\<close> is the
  sequence of \<open>Rewrite\<close>, the function pass of Phase 0, and \<open>PlanDevicesCore\<close>, which runs
  the analyzer, the defaulter and the capturer and stops at the first fatal error.
\<close>

fun CaptureFunctions :: "DeviceDomains \<Rightarrow> (string \<times> expr) list \<Rightarrow> error + (string \<times> expr) list" where
  "CaptureFunctions D [] = Inr []"
| "CaptureFunctions D (pair # rest) =
     (case VisitExpr D (snd pair) of
        Inl err \<Rightarrow> Inl err
      | Inr func \<Rightarrow>
          if \<not> is_function func then Inl (InternalCheck ''Downcast<BaseFunc>'')
          else (case CaptureFunctions D rest of
                  Inl err \<Rightarrow> Inl err
                | Inr rest' \<Rightarrow> Inr ((fst pair, func) # rest')))"

definition Capture :: "DeviceDomains \<Rightarrow> IRModule \<Rightarrow> error + IRModule" where
  "Capture D m =
     (case CaptureFunctions D (functions_map m) of
        Inl err \<Rightarrow> Inl err
      | Inr fs \<Rightarrow>
          Inr \<lparr>functions_map = fs, type_definitions = type_definitions m,
               import_set = import_set m, source_map = source_map m\<rparr>)"

definition Rewrite :: "IRModule \<Rightarrow> IRModule" where
  "Rewrite m = m\<lparr>functions_map := map (\<lambda>pair. (fst pair, RewriteOnDevices (snd pair)))
                                      (functions_map m)\<rparr>"

definition PlanDevicesCore :: "Typing \<Rightarrow> CompilationConfig \<Rightarrow> IRModule \<Rightarrow> error + IRModule" where
  "PlanDevicesCore T cfg m =
     and_then (Analyze T cfg m)
       (\<lambda>domains. and_then (Default T m domains)
          (\<lambda>domains'. Capture domains' m))"

definition PlanDevices :: "Typing \<Rightarrow> CompilationConfig \<Rightarrow> IRModule \<Rightarrow> error + IRModule" where
  "PlanDevices T cfg m = PlanDevicesCore T cfg (Rewrite m)"

section \<open>Examples\<close>

text \<open>
  A configuration with the CPU as host and default scope and the identity as canonical
  form, and the store of that configuration in which no expression has a domain yet.
\<close>

definition example_config :: CompilationConfig where
  "example_config =
     \<lparr>host_se_scope = CPU, default_primitive_se_scope = CPU, CanonicalSEScope = (\<lambda>s. s)\<rparr>"

definition empty_domains :: DeviceDomains where
  "empty_domains =
     \<lparr>config = example_config, expr_to_domain = (\<lambda>e. None),
      call_to_callee_domain = (\<lambda>e. None), representative = (\<lambda>n. n),
      se_scope_of = (\<lambda>n. FullyUnconstrained), next_node = 0\<rparr>"

fun is_var_ref :: "expr \<Rightarrow> bool" where
  "is_var_ref (Var x) = True"
| "is_var_ref (GlobalVar g) = True"
| "is_var_ref e = False"

lemma CPU_constrained: "\<not> IsFullyUnconstrained CPU"
  by (simp add: IsFullyUnconstrained_def CPU_def)

lemma GPU_constrained: "\<not> IsFullyUnconstrained GPU"
  by (simp add: IsFullyUnconstrained_def GPU_def)

lemma CPU_neq_GPU: "CPU \<noteq> GPU"
  by (simp add: CPU_def GPU_def)

text \<open>
  A typing in which every function and every global variable has a function type of
  first-order parameters and result, and no primitive has a bespoke shape.
\<close>

definition ex_typing :: Typing where
  "ex_typing =
     \<lparr>checked_type =
        (\<lambda>e. case e of
               Function ps body a \<Rightarrow> FuncType (map (\<lambda>p. ValueType) ps) ValueType
             | GlobalVar g \<Rightarrow> FuncType [ValueType] ValueType
             | _ \<Rightarrow> ValueType),
      shape_typed = (\<lambda>n. None)\<rparr>"

text \<open>The definitions a concrete run of the store unfolds.\<close>

lemmas store_defs =
  DomainFor_def DomainForCallee_def Free_def ForSEScope_def MakeFirstOrderDomain_def
  remember_expr_def remember_callee_def UnifyExprExact_def UnifyExprsExact_def
  UnifyExprCollapsed_def UnifyCollapsedOrNull_def UnifyFirstOrder_def node_scope_def
  JoinSEScope_def new_domains_def example_config_def PrimitiveDomain_def HomogeneousDomain_def
  UnifyWithAttributes_def GetFunctionResultSEScope_def GetFunctionParamSEScopes_def
  IsFullyUnconstrained_def FullyUnconstrained_def CPU_def GPU_def OnDevice_def DeviceCopy_def

lemmas default_defs =
  IsFullyConstrained_def IsFullyConstrainedScope_def SetDefault_def SetDefaultNode_def
  DefaultSEScope_def ResultSEScope_def Let_def



abbreviation identity_function :: expr where
  "identity_function \<equiv> Function [''x''] (Var ''x'') (FuncAttrs 0 None None)"

abbreviation fused_copy :: expr where
  "fused_copy \<equiv> Function [''x''] (DeviceCopy (Var ''x'') CPU CPU) (FuncAttrs 1 None None)"

definition identity_domains :: DeviceDomains where
  "identity_domains = snd (DomainFor ex_typing identity_function (new_domains example_config))"

definition add_domains :: DeviceDomains where
  "add_domains =
     snd (DomainForCallee ex_typing (Call (Op ''add'') [Var ''x'', Var ''y''] NoAttrs)
            (new_domains example_config))"

definition fused_domains :: DeviceDomains where
  "fused_domains = snd (DomainFor ex_typing fused_copy (new_domains example_config))"





section \<open>Properties of Phase 0\<close>



text \<open>
  C4. The claim is that Phase 0 rewrites \<open>(on_device(e, scope=d, is_fixed=false)).i\<close> to
  \<open>on_device(e.i, scope=d, is_fixed=false)\<close>, as the comment above the class
  (\<open>on_device(e).0 ==> on_device(e.0)\<close>) says. The visit of a \<open>TupleGetItemNode\<close> wraps the
  projection it has rebuilt from the rewritten tuple, which still is the "on_device" call:
  for the tuple variable \<open>t\<close> annotated for the GPU the result is
  \<open>on_device((on_device(t, GPU)).0, GPU)\<close> and not \<open>on_device(t.0, GPU)\<close>. The let and the
  function visit rebuild from \<open>props.body\<close>; this visit does not.
\<close>

theorem RewriteOnDevices_TupleGetItem_keeps_inner:
  "RewriteOnDevices (TupleGetItem (OnDevice (Var ''t'') GPU False) 0)
     = OnDevice (TupleGetItem (OnDevice (Var ''t'') GPU False) 0) GPU False
   \<and> RewriteOnDevices (TupleGetItem (OnDevice (Var ''t'') GPU False) 0)
     \<noteq> OnDevice (TupleGetItem (Var ''t'') 0) GPU False"
  by (simp add: OnDevice_def)


section \<open>Properties of Phase 1\<close>












section \<open>Properties of Phase 2\<close>

lemma DefaultFacet_self: "DefaultFacet x x = x"
  by (cases x) simp_all

lemma DefaultFacet_idem: "DefaultFacet (DefaultFacet x d) d = DefaultFacet x d"
  by (cases x) (simp_all add: DefaultFacet_self)

lemma DefaultSEScope_idem: "DefaultSEScope (DefaultSEScope s d) d = DefaultSEScope s d"
  by (simp add: DefaultSEScope_def DefaultFacet_idem)

lemma DefaultSEScope_self: "DefaultSEScope s s = s"
  by (cases s) (simp add: DefaultSEScope_def DefaultFacet_self)

lemma DefaultSEScope_unconstrained: "IsFullyUnconstrained s \<Longrightarrow> DefaultSEScope s d = d"
  by (cases s; cases d) (simp add: DefaultSEScope_def IsFullyUnconstrained_def)

lemma DefaultSEScope_constrained: "IsFullyConstrainedScope s \<Longrightarrow> DefaultSEScope s d = s"
  by (cases s) (auto simp: DefaultSEScope_def IsFullyConstrainedScope_def)

lemma representative_SetDefaultNode [simp]:
  "representative (SetDefaultNode dflt n D) = representative D"
  by (simp add: SetDefaultNode_def)

lemma config_SetDefaultNode [simp]: "config (SetDefaultNode dflt n D) = config D"
  by (simp add: SetDefaultNode_def)

lemma node_scope_SetDefaultNode:
  "node_scope (SetDefaultNode dflt n D) m =
     (if representative D m = representative D n then DefaultSEScope (node_scope D m) dflt
      else node_scope D m)"
  by (simp add: SetDefaultNode_def node_scope_def)

lemma representative_fold_SetDefaultNode [simp]:
  "representative (fold (SetDefaultNode dflt) ns D) = representative D"
  by (induction ns arbitrary: D) simp_all

lemma node_scope_fold_SetDefaultNode:
  "node_scope (fold (SetDefaultNode dflt) ns D) m =
     (if representative D m \<in> representative D ` set ns
      then DefaultSEScope (node_scope D m) dflt else node_scope D m)"
proof (induction ns arbitrary: D)
  case Nil
  then show ?case by simp
next
  case (Cons n ns)
  show ?case
    by (simp add: Cons.IH node_scope_SetDefaultNode DefaultSEScope_idem)
qed

lemma representative_SetDefault [simp]: "representative (SetDefault d dflt D) = representative D"
  by (simp add: SetDefault_def)

lemma node_scope_SetDefault:
  "node_scope (SetDefault d dflt D) m =
     (if representative D m \<in> representative D ` set (leaves d)
      then DefaultSEScope (node_scope D m) dflt else node_scope D m)"
  by (simp add: SetDefault_def node_scope_fold_SetDefaultNode)

lemma representative_fold_SetDefault [simp]:
  "representative (fold (\<lambda>p. SetDefault p dflt) ps D) = representative D"
  by (induction ps arbitrary: D) simp_all

lemma node_scope_fold_SetDefault:
  "node_scope (fold (\<lambda>p. SetDefault p dflt) ps D) m =
     (if representative D m \<in> representative D ` set (concat (map leaves ps))
      then DefaultSEScope (node_scope D m) dflt else node_scope D m)"
proof (induction ps arbitrary: D)
  case Nil
  then show ?case by simp
next
  case (Cons p ps)
  show ?case
    by (auto simp: Cons.IH node_scope_SetDefault DefaultSEScope_idem)
qed

lemma ResultSEScope_node_scope: "ResultSEScope D d = node_scope D (ResultDomain d)"
  by (simp add: ResultSEScope_def node_scope_def)

lemma representative_SetResultDefaultThenParams [simp]:
  "representative (SetResultDefaultThenParams d dflt D) = representative D"
  by (induction d arbitrary: D) (simp_all add: Let_def)

lemma SetResultDefaultThenParams_result:
  "ResultSEScope (SetResultDefaultThenParams d dflt D) d
     = DefaultSEScope (ResultSEScope D d) dflt"
proof (induction d arbitrary: D)
  case (FirstOrder n)
  show ?case by (simp add: ResultSEScope_node_scope node_scope_SetDefault)
next
  case (HigherOrder ps r)
  have "ResultSEScope (SetResultDefaultThenParams r dflt D) r
          = DefaultSEScope (ResultSEScope D r) dflt"
    by (rule HigherOrder.IH(2))
  then show ?case
    by (simp add: Let_def ResultSEScope_node_scope node_scope_fold_SetDefault
          DefaultSEScope_self)
qed

lemma SetResultDefaultThenParams_params:
  assumes "m \<in> set (concat (map leaves ps))"
  shows "node_scope (SetResultDefaultThenParams (HigherOrder ps r) dflt D) m
     = DefaultSEScope (node_scope (SetResultDefaultThenParams r dflt D) m)
         (ResultSEScope (SetResultDefaultThenParams r dflt D) r)"
  using assms
  by (simp add: Let_def node_scope_fold_SetDefault ResultSEScope_node_scope image_iff)
    (metis representative_SetResultDefaultThenParams)

text \<open>
  C6, as the code has it. For a function that is not marked primitive and for the callee
  of a call, when the domain is not fully constrained the defaulter continues in the store
  that \<open>SetResultDefaultThenParams\<close> returns for the default scope of the configuration.
  In that store the result scope of the domain is its old result scope with the unknown
  facets filled from the default, and the scope of every parameter leaf is its scope
  after the first step with the unknown facets filled from that result scope: an
  unconstrained scope becomes the scope it is defaulted to, a fully constrained one stays.
\<close>

theorem Defaulter_defaults_result_then_params:
  "(primitive a = 0 \<and> DomainFor T (Function ps body a) D = (func_domain, D1)
      \<and> function_arity func_domain = Some (length ps)
      \<and> \<not> IsFullyConstrained D1 func_domain
      \<longrightarrow> Defaulter_VisitExpr T (Function ps body a) D =
            Defaulter_VisitExpr T body
              (SetResultDefaultThenParams func_domain
                 (default_primitive_se_scope (config D1)) D1))
   \<and> (DomainForCallee T (Call f args ca) D = (callee_domain, D2)
      \<and> function_arity callee_domain = Some (length args)
      \<and> \<not> IsFullyConstrained D2 callee_domain
      \<longrightarrow> Defaulter_VisitExpr T (Call f args ca) D =
            and_then
              (Defaulter_VisitExpr T f
                 (SetResultDefaultThenParams callee_domain
                    (default_primitive_se_scope (config D2)) D2))
              (Defaulter_VisitExprs T args))
   \<and> ResultSEScope (SetResultDefaultThenParams (HigherOrder params r) dflt D')
         (HigherOrder params r)
       = DefaultSEScope (ResultSEScope D' (HigherOrder params r)) dflt
   \<and> (m \<in> set (concat (map leaves params))
      \<longrightarrow> node_scope (SetResultDefaultThenParams (HigherOrder params r) dflt D') m
          = DefaultSEScope (node_scope (SetResultDefaultThenParams r dflt D') m)
              (ResultSEScope (SetResultDefaultThenParams (HigherOrder params r) dflt D')
                 (HigherOrder params r)))
   \<and> (IsFullyUnconstrained s \<longrightarrow> DefaultSEScope s dflt = dflt)
   \<and> (IsFullyConstrainedScope s \<longrightarrow> DefaultSEScope s dflt = s)"
proof -
  have "ResultSEScope (SetResultDefaultThenParams r dflt D') r
          = DefaultSEScope (ResultSEScope D' r) dflt"
    by (rule SetResultDefaultThenParams_result)
  moreover have "ResultSEScope D' (HigherOrder params r) = ResultSEScope D' r"
    by (simp add: ResultSEScope_def)
  moreover have "ResultSEScope (SetResultDefaultThenParams (HigherOrder params r) dflt D')
                   (HigherOrder params r)
                 = DefaultSEScope (ResultSEScope D' (HigherOrder params r)) dflt"
    by (rule SetResultDefaultThenParams_result)
  ultimately have res:
    "ResultSEScope (SetResultDefaultThenParams (HigherOrder params r) dflt D')
       (HigherOrder params r)
     = ResultSEScope (SetResultDefaultThenParams r dflt D') r"
    by simp
  show ?thesis
    using SetResultDefaultThenParams_result [of "HigherOrder params r" dflt D']
          SetResultDefaultThenParams_params [of m params r dflt D'] res
    by (auto simp: DefaultCallee_def DefaultSEScope_unconstrained DefaultSEScope_constrained
             simp del: SetResultDefaultThenParams.simps)
qed

lemma identity_lookup:
  "DomainFor ex_typing identity_function identity_domains
     = (HigherOrder [FirstOrder 0] (FirstOrder 1), identity_domains)"
  by (simp add: store_defs identity_domains_def ex_typing_def)

lemma identity_free:
  "\<not> IsFullyConstrained identity_domains (HigherOrder [FirstOrder 0] (FirstOrder 1))"
  by (simp add: store_defs default_defs identity_domains_def ex_typing_def)

lemma identity_config: "default_primitive_se_scope (config identity_domains) = CPU"
  by (simp add: store_defs identity_domains_def ex_typing_def)

lemma add_lookup:
  "DomainForCallee ex_typing (Call (Op ''add'') [Var ''x'', Var ''y''] NoAttrs) add_domains
     = (HigherOrder [FirstOrder 0, FirstOrder 0] (FirstOrder 0), add_domains)"
  by (simp add: store_defs add_domains_def ex_typing_def)

lemma add_free:
  "\<not> IsFullyConstrained add_domains (HigherOrder [FirstOrder 0, FirstOrder 0] (FirstOrder 0))"
  by (simp add: store_defs default_defs add_domains_def ex_typing_def)

lemma identity_scopes:
  "ResultSEScope identity_domains (HigherOrder [FirstOrder 0] (FirstOrder 1))
     = FullyUnconstrained"
  "node_scope (SetResultDefaultThenParams (FirstOrder 1) CPU identity_domains) 0
     = FullyUnconstrained"
  "ResultSEScope (SetResultDefaultThenParams (FirstOrder 1) CPU identity_domains)
     (FirstOrder 1) = CPU"
  by (simp_all add: store_defs default_defs identity_domains_def ex_typing_def)

lemma example_scopes:
  "IsFullyUnconstrained FullyUnconstrained" "IsFullyConstrainedScope GPU"
  by (simp_all add: IsFullyUnconstrained_def FullyUnconstrained_def
        IsFullyConstrainedScope_def GPU_def)

theorem Defaulter_defaults_result_then_params_witness:
  "Defaulter_VisitExpr ex_typing identity_function identity_domains
     = Inr (SetResultDefaultThenParams (HigherOrder [FirstOrder 0] (FirstOrder 1)) CPU
              identity_domains)
   \<and> Defaulter_VisitExpr ex_typing (Call (Op ''add'') [Var ''x'', Var ''y''] NoAttrs) add_domains
     = Inr (SetResultDefaultThenParams (HigherOrder [FirstOrder 0, FirstOrder 0] (FirstOrder 0))
              (default_primitive_se_scope (config add_domains)) add_domains)
   \<and> ResultSEScope
         (SetResultDefaultThenParams (HigherOrder [FirstOrder 0] (FirstOrder 1)) CPU
            identity_domains)
         (HigherOrder [FirstOrder 0] (FirstOrder 1)) = CPU
   \<and> node_scope
         (SetResultDefaultThenParams (HigherOrder [FirstOrder 0] (FirstOrder 1)) CPU
            identity_domains) 0 = CPU
   \<and> IsFullyUnconstrained FullyUnconstrained \<and> DefaultSEScope FullyUnconstrained CPU = CPU
   \<and> IsFullyConstrainedScope GPU \<and> DefaultSEScope GPU CPU = GPU"
proof -
  note inst1 = Defaulter_defaults_result_then_params
          [of "FuncAttrs 0 None None" ex_typing "[''x'']" "Var ''x''" identity_domains
              "HigherOrder [FirstOrder 0] (FirstOrder 1)" identity_domains
              "Op ''add''" "[Var ''x'', Var ''y'']" NoAttrs
              "HigherOrder [FirstOrder 0, FirstOrder 0] (FirstOrder 0)" add_domains
              "[FirstOrder 0]" "FirstOrder 1" CPU identity_domains 0 FullyUnconstrained]
  note inst2 = Defaulter_defaults_result_then_params
          [of "FuncAttrs 0 None None" ex_typing "[''x'']" "Var ''x''" add_domains
              "HigherOrder [FirstOrder 0] (FirstOrder 1)" identity_domains
              "Op ''add''" "[Var ''x'', Var ''y'']" NoAttrs
              "HigherOrder [FirstOrder 0, FirstOrder 0] (FirstOrder 0)" add_domains
              "[FirstOrder 0]" "FirstOrder 1" CPU identity_domains 0 GPU]
  from inst1 identity_lookup identity_free identity_config
  have 1: "Defaulter_VisitExpr ex_typing identity_function identity_domains
             = Defaulter_VisitExpr ex_typing (Var ''x'')
                 (SetResultDefaultThenParams (HigherOrder [FirstOrder 0] (FirstOrder 1)) CPU
                    identity_domains)"
    by (simp del: Defaulter_VisitExpr.simps SetResultDefaultThenParams.simps)
  from inst2 add_lookup add_free
  have 2: "Defaulter_VisitExpr ex_typing (Call (Op ''add'') [Var ''x'', Var ''y''] NoAttrs)
             add_domains
           = and_then
               (Defaulter_VisitExpr ex_typing (Op ''add'')
                  (SetResultDefaultThenParams
                     (HigherOrder [FirstOrder 0, FirstOrder 0] (FirstOrder 0))
                     (default_primitive_se_scope (config add_domains)) add_domains))
               (Defaulter_VisitExprs ex_typing [Var ''x'', Var ''y''])"
    by (simp del: Defaulter_VisitExpr.simps SetResultDefaultThenParams.simps)
  from inst1 identity_scopes
  have 3: "ResultSEScope
             (SetResultDefaultThenParams (HigherOrder [FirstOrder 0] (FirstOrder 1)) CPU
                identity_domains)
             (HigherOrder [FirstOrder 0] (FirstOrder 1)) = CPU"
    and 4: "node_scope
             (SetResultDefaultThenParams (HigherOrder [FirstOrder 0] (FirstOrder 1)) CPU
                identity_domains) 0 = CPU"
    and 5: "DefaultSEScope FullyUnconstrained CPU = CPU"
    using example_scopes
    by (simp_all del: Defaulter_VisitExpr.simps SetResultDefaultThenParams.simps)
  from inst2 example_scopes have 6: "DefaultSEScope GPU CPU = GPU"
    by (simp del: Defaulter_VisitExpr.simps SetResultDefaultThenParams.simps)
  from 1 2 3 4 5 6 example_scopes show ?thesis
    by (simp del: SetResultDefaultThenParams.simps)
qed

text \<open>
  C6 as the claim states it, for every function, fails for a function marked primitive:
  the defaulter returns at once and the domain of the function stays unconstrained.
\<close>

lemma fused_lookup:
  "DomainFor ex_typing fused_copy fused_domains
     = (HigherOrder [FirstOrder 0] (FirstOrder 1), fused_domains)"
  by (simp add: store_defs fused_domains_def ex_typing_def)

lemma fused_free:
  "\<not> IsFullyConstrained fused_domains (HigherOrder [FirstOrder 0] (FirstOrder 1))"
  by (simp add: store_defs default_defs fused_domains_def ex_typing_def)

theorem Defaulter_skips_primitive_counterexample:
  "primitive (FuncAttrs 1 None None) \<noteq> 0
   \<and> DomainFor ex_typing fused_copy fused_domains
       = (HigherOrder [FirstOrder 0] (FirstOrder 1), fused_domains)
   \<and> \<not> IsFullyConstrained fused_domains (HigherOrder [FirstOrder 0] (FirstOrder 1))
   \<and> Defaulter_VisitExpr ex_typing fused_copy fused_domains = Inr fused_domains
   \<and> ResultSEScope fused_domains (HigherOrder [FirstOrder 0] (FirstOrder 1))
       \<noteq> default_primitive_se_scope (config fused_domains)"
  using fused_lookup fused_free
  by (simp add: DeviceCopy_def)
     (simp add: store_defs default_defs fused_domains_def ex_typing_def)

section \<open>Properties of the pass\<close>

text \<open>
  A module whose only function is primitive and projects from an annotated tuple,
  \<open>fn(%t, Primitive=1) { on_device(%t, se_scope=GPU).0 }\<close>, and what the pass returns for it
  when it is run once and twice.
\<close>

definition projection_module :: IRModule where
  "projection_module =
     \<lparr>functions_map =
        [(''proj'',
          Function [''t''] (TupleGetItem (OnDevice (Var ''t'') GPU False) 0)
            (FuncAttrs 1 None None))],
      type_definitions = [], import_set = [], source_map = []\<rparr>"

definition projection_planned_once :: IRModule where
  "projection_planned_once =
     \<lparr>functions_map =
        [(''proj'',
          Function [''t'']
            (OnDevice (TupleGetItem (OnDevice (Var ''t'') GPU False) 0) GPU True)
            (FuncAttrs 1 None None))],
      type_definitions = [], import_set = [], source_map = []\<rparr>"

definition projection_planned_twice :: IRModule where
  "projection_planned_twice =
     \<lparr>functions_map =
        [(''proj'',
          Function [''t'']
            (OnDevice (OnDevice (TupleGetItem (OnDevice (Var ''t'') GPU False) 0) GPU False)
               GPU True)
            (FuncAttrs 1 None None))],
      type_definitions = [], import_set = [], source_map = []\<rparr>"

lemma projection_first_run:
  "PlanDevices ex_typing example_config projection_module = Inr projection_planned_once"
  by (simp add: store_defs ex_typing_def projection_module_def projection_planned_once_def
        PlanDevices_def PlanDevicesCore_def Analyze_def Default_def Capture_def Rewrite_def
        fix_on_device_def)

lemma projection_second_run:
  "PlanDevices ex_typing example_config projection_planned_once = Inr projection_planned_twice"
  by (simp add: store_defs ex_typing_def projection_planned_once_def
        projection_planned_twice_def PlanDevices_def PlanDevicesCore_def Analyze_def
        Default_def Capture_def Rewrite_def fix_on_device_def)

text \<open>
  C8. The pass accepts the module of the primitive projection and accepts its own output,
  but the second run does not return what the first run returned: Phase 0 rewrites the
  body of a primitive function, which the later phases leave as it is, and its visit of
  the projection wraps the projection once more at every run.
\<close>

theorem PlanDevices_not_idempotent:
  "PlanDevices ex_typing example_config projection_module = Inr projection_planned_once
   \<and> PlanDevices ex_typing example_config projection_planned_once
       = Inr projection_planned_twice
   \<and> projection_planned_twice \<noteq> projection_planned_once"
  using projection_first_run projection_second_run
  by (simp add: projection_planned_once_def projection_planned_twice_def OnDevice_def)

section \<open>Properties of Phase 3\<close>

lemma MaybeOnDevice_DeviceCopy:
  "MaybeOnDevice (DeviceCopy e src dst) s b = OnDevice (DeviceCopy e src dst) s b"
  by (simp add: DeviceCopy_def)

lemma MaybeOnDevice_cases:
  "MaybeOnDevice e s b = (if is_var_ref e then e else OnDevice e s b)"
  by (cases e) simp_all

lemma is_var_ref_DeviceCopy: "\<not> is_var_ref (DeviceCopy e src dst)"
  by (simp add: DeviceCopy_def)

text \<open>
  C2, as the code has it. \<open>VisitChild\<close> wraps with \<open>MaybeOnDevice\<close>, which leaves a variable
  and a global variable bare. For scopes that pass the two checks at its head: a primitive
  operator or a constructor is returned as it is. Any other child is rewritten to \<open>child'\<close>;
  if the child scope differs from the expected scope the result is
  \<open>device_copy(a, src=child_scope, dst=expected)\<close>, where \<open>a\<close> is
  \<open>on_device(child', scope=child_scope, is_fixed=true)\<close> unless \<open>child'\<close> is a variable or a
  global variable, and then \<open>a\<close> is \<open>child'\<close>; if the expected scope differs from the lexical
  scope the result is wrapped in \<open>on_device(., scope=expected, is_fixed=true)\<close>, again
  unless it is a bare variable or global variable.
\<close>

theorem VisitChild_reconciles_scopes:
  assumes "\<not> IsFullyUnconstrained lexical" and "\<not> IsFullyUnconstrained expected"
  shows "(is_op_or_constructor child \<longrightarrow>
            VisitChild D lexical expected child_scope child = Inr child)
       \<and> (\<not> is_op_or_constructor child \<and> VisitExpr D child = Inr child' \<longrightarrow>
            VisitChild D lexical expected child_scope child =
              Inr (if child_scope \<noteq> expected
                   then if expected \<noteq> lexical
                        then OnDevice (DeviceCopy (MaybeOnDevice child' child_scope True)
                                         child_scope expected) expected True
                        else DeviceCopy (MaybeOnDevice child' child_scope True)
                               child_scope expected
                   else if expected \<noteq> lexical then MaybeOnDevice child' expected True
                   else child'))
       \<and> (is_var_ref child' \<longrightarrow> MaybeOnDevice child' child_scope True = child')
       \<and> (\<not> is_var_ref child' \<longrightarrow>
            MaybeOnDevice child' child_scope True = OnDevice child' child_scope True)"
  using assms by (simp add: MaybeOnDevice_cases is_var_ref_DeviceCopy Let_def)

theorem VisitChild_reconciles_scopes_witness:
  "\<not> IsFullyUnconstrained CPU \<and> \<not> is_op_or_constructor (Constant 3)
   \<and> VisitExpr empty_domains (Constant 3) = Inr (Constant 3)
   \<and> VisitChild empty_domains CPU CPU GPU (Constant 3)
       = Inr (DeviceCopy (OnDevice (Constant 3) GPU True) GPU CPU)
   \<and> is_op_or_constructor (Op ''add'')
   \<and> VisitChild empty_domains CPU CPU GPU (Op ''add'') = Inr (Op ''add'')"
  using VisitChild_reconciles_scopes [OF CPU_constrained CPU_constrained,
          of "Constant 3" empty_domains GPU "Constant 3"]
        VisitChild_reconciles_scopes [OF CPU_constrained CPU_constrained,
          of "Op ''add''" empty_domains GPU "Constant 3"]
        CPU_constrained CPU_neq_GPU
  by (simp add: MaybeOnDevice_cases)

text \<open>
  C2 as the claim states it fails for a variable: a variable at the GPU that is expected
  at the CPU is copied bare, with no "on_device" around it.
\<close>

theorem VisitChild_variable_counterexample:
  "VisitChild empty_domains CPU CPU GPU (Var ''x'') = Inr (DeviceCopy (Var ''x'') GPU CPU)
   \<and> VisitChild empty_domains CPU CPU GPU (Var ''x'')
       \<noteq> Inr (DeviceCopy (OnDevice (Var ''x'') GPU True) GPU CPU)"
  using CPU_constrained CPU_neq_GPU by (simp add: DeviceCopy_def OnDevice_def)

subsection \<open>Functions carry their scopes\<close>

text \<open>
  \<open>functions_carry_scopes e\<close>: every function of \<open>e\<close> that is not marked primitive and does
  not stand inside a primitive function has a "param_se_scopes" attribute with one scope
  for each parameter and a "result_se_scope" attribute.
\<close>

declare VisitChild.simps [simp del] VisitChildOf.simps [simp del] VisitLets.simps [simp del]

definition carries_scopes :: "string list \<Rightarrow> func_attrs \<Rightarrow> bool" where
  "carries_scopes ps a \<longleftrightarrow>
     (case param_se_scopes a of Some ss \<Rightarrow> length ss = length ps | None \<Rightarrow> False)
     \<and> result_se_scope a \<noteq> None"

fun functions_carry_scopes :: "expr \<Rightarrow> bool" where
  "functions_carry_scopes (Function ps body a) =
     (if primitive a \<noteq> 0 then True
      else carries_scopes ps a \<and> functions_carry_scopes body)"
| "functions_carry_scopes (Tuple fs) = list_all functions_carry_scopes fs"
| "functions_carry_scopes (TupleGetItem t i) = functions_carry_scopes t"
| "functions_carry_scopes (Let x v b) =
     (functions_carry_scopes v \<and> functions_carry_scopes b)"
| "functions_carry_scopes (If c t f) =
     (functions_carry_scopes c \<and> functions_carry_scopes t \<and> functions_carry_scopes f)"
| "functions_carry_scopes (Call f args a) =
     (functions_carry_scopes f \<and> list_all functions_carry_scopes args)"
| "functions_carry_scopes (Match d cs complete) =
     (functions_carry_scopes d \<and> list_all (\<lambda>c. functions_carry_scopes (snd c)) cs)"
| "functions_carry_scopes (RefCreate v) = functions_carry_scopes v"
| "functions_carry_scopes (RefRead r) = functions_carry_scopes r"
| "functions_carry_scopes (RefWrite r v) =
     (functions_carry_scopes r \<and> functions_carry_scopes v)"
| "functions_carry_scopes e = True"

lemma fcs_OnDevice [simp]: "functions_carry_scopes (OnDevice e s b) = functions_carry_scopes e"
  by (simp add: OnDevice_def)

lemma fcs_DeviceCopy [simp]:
  "functions_carry_scopes (DeviceCopy e s d) = functions_carry_scopes e"
  by (simp add: DeviceCopy_def)

lemma fcs_MaybeOnDevice [simp]:
  "functions_carry_scopes (MaybeOnDevice e s b) = functions_carry_scopes e"
  by (simp add: MaybeOnDevice_cases)

lemma fcs_op_or_constructor: "is_op_or_constructor e \<Longrightarrow> functions_carry_scopes e"
  by (cases e) simp_all

lemma param_se_scopes_of_length:
  "param_se_scopes_of D ps = Inr ss \<Longrightarrow> length ss = length ps"
  by (induction ps arbitrary: ss) (auto split: if_splits sum.splits)

lemma function_arity_params:
  "function_arity d = Some n \<Longrightarrow> length (function_params d) = n"
  by (cases d) auto

lemma GetOnDeviceProps_fcs:
  "GetOnDeviceProps e = Some (body, s, b) \<Longrightarrow> functions_carry_scopes e = functions_carry_scopes body"
  by (induction e rule: GetOnDeviceProps.induct) (auto split: if_splits)

lemma capturer_functions_carry_scopes:
  shows "VisitExpr D e = Inr r \<Longrightarrow> functions_carry_scopes r"
    and "VisitChild D l x c child = Inr r \<Longrightarrow> functions_carry_scopes r"
    and "VisitChildOf D parent child1 = Inr r \<Longrightarrow> functions_carry_scopes r"
    and "VisitFields D parent1 fs = Inr rs \<Longrightarrow> list_all functions_carry_scopes rs"
    and "VisitArgs D s params args = Inr rs \<Longrightarrow> list_all functions_carry_scopes rs"
    and "VisitClauses D parent2 cs = Inr rcs
           \<Longrightarrow> list_all (\<lambda>c. functions_carry_scopes (snd c)) rcs"
    and "VisitLets D s1 e1 = Inr r \<Longrightarrow> functions_carry_scopes r"
proof (induction D e and D l x c child and D parent child1 and D parent1 fs
         and D s params args and D parent2 cs and D s1 e1
       arbitrary: r and r and r and rs and rs and rcs and r
       rule: VisitExpr_VisitChild_VisitChildOf_VisitFields_VisitArgs_VisitClauses_VisitLets.induct)
  case (7 D ps body a)
  then show ?case
    by (auto split: if_splits sum.splits
             simp: carries_scopes_def param_se_scopes_of_length function_arity_params)
next
  case (8 D f args a)
  then show ?case
    by (auto split: if_splits sum.splits option.splits)
next
  case (16 D lexical_se_scope expected_se_scope child_se_scope child)
  then show ?case
    by (auto split: if_splits sum.splits
             simp: fcs_op_or_constructor Let_def
                   VisitChild.simps [of D lexical_se_scope expected_se_scope child_se_scope child])
next
  case (17 D parent child)
  then show ?case
    by (auto split: sum.splits simp: VisitChildOf.simps [of D parent child])
next
  case (24 D let_se_scope e)
  then show ?case
    by (auto split: if_splits sum.splits option.splits dest: as_let_Some
             simp: VisitLets.simps [of D let_se_scope e])
qed (auto split: if_splits sum.splits option.splits list.splits)

subsection \<open>Copies are transitions\<close>

text \<open>
  \<open>lexically_at s e\<close>: the expression is an "on_device" call with \<open>is_fixed=true\<close> for the
  scope \<open>s\<close>, or a variable or global variable, which carries no annotation.
  \<open>copies_are_transitions canonical e\<close>: every "device_copy" call of \<open>e\<close> outside the
  primitive functions has canonical source and destination scopes that differ, and an
  argument that is lexically at the source scope. \<open>attrs_match_ops e\<close>: a call of \<open>e\<close> with
  \<open>DeviceCopyAttrs\<close> is a "device_copy" call. \<open>canonical_scopes D\<close>: the canonical form is
  idempotent and the scopes of the store are canonical.
\<close>

definition lexically_at :: "SEScope \<Rightarrow> expr \<Rightarrow> bool" where
  "lexically_at s e =
     (case GetOnDeviceProps e of
        Some (body, s', is_fixed) \<Rightarrow> s' = s \<and> is_fixed
      | None \<Rightarrow> is_var_ref e)"

definition copy_is_transition :: "(SEScope \<Rightarrow> SEScope) \<Rightarrow> expr \<Rightarrow> bool" where
  "copy_is_transition canonical e =
     (case GetDeviceCopyProps e of
        Some (body, src, dst) \<Rightarrow> canonical src \<noteq> canonical dst \<and> lexically_at src body
      | None \<Rightarrow> True)"

fun copies_are_transitions :: "(SEScope \<Rightarrow> SEScope) \<Rightarrow> expr \<Rightarrow> bool" where
  "copies_are_transitions canonical (Call f args a) =
     (copy_is_transition canonical (Call f args a)
      \<and> copies_are_transitions canonical f
      \<and> list_all (copies_are_transitions canonical) args)"
| "copies_are_transitions canonical (Function ps body a) =
     (if primitive a \<noteq> 0 then True else copies_are_transitions canonical body)"
| "copies_are_transitions canonical (Tuple fs) = list_all (copies_are_transitions canonical) fs"
| "copies_are_transitions canonical (TupleGetItem t i) = copies_are_transitions canonical t"
| "copies_are_transitions canonical (Let x v b) =
     (copies_are_transitions canonical v \<and> copies_are_transitions canonical b)"
| "copies_are_transitions canonical (If c t f) =
     (copies_are_transitions canonical c \<and> copies_are_transitions canonical t
      \<and> copies_are_transitions canonical f)"
| "copies_are_transitions canonical (Match d cs complete) =
     (copies_are_transitions canonical d
      \<and> list_all (\<lambda>c. copies_are_transitions canonical (snd c)) cs)"
| "copies_are_transitions canonical (RefCreate v) = copies_are_transitions canonical v"
| "copies_are_transitions canonical (RefRead r) = copies_are_transitions canonical r"
| "copies_are_transitions canonical (RefWrite r v) =
     (copies_are_transitions canonical r \<and> copies_are_transitions canonical v)"
| "copies_are_transitions canonical e = True"







lemma GetDeviceCopyProps_OnDevice [simp]: "GetDeviceCopyProps (OnDevice e s b) = None"
  by (simp add: OnDevice_def)

lemma cat_OnDevice [simp]:
  "copies_are_transitions k (OnDevice e s b) = copies_are_transitions k e"
  by (simp add: OnDevice_def copy_is_transition_def)

lemma cat_MaybeOnDevice [simp]:
  "copies_are_transitions k (MaybeOnDevice e s b) = copies_are_transitions k e"
  by (simp add: MaybeOnDevice_cases)








subsection \<open>An example: one function with an annotation\<close>

text \<open>
  The module \<open>def @main(%x) { add(%x, on_device(negative(%x), se_scope=GPU)) }\<close> and a store
  for it in which \<open>%x\<close>, the call of \<open>add\<close> and the function result are on the CPU and the
  call of \<open>negative\<close> is on the GPU.
\<close>

abbreviation ex_neg :: expr where
  "ex_neg \<equiv> Call (Op ''negative'') [Var ''x''] NoAttrs"

abbreviation ex_ann :: expr where
  "ex_ann \<equiv> Call (Op ''on_device'') [ex_neg] (OnDeviceAttrs GPU False)"

abbreviation ex_add :: expr where
  "ex_add \<equiv> Call (Op ''add'') [Var ''x'', ex_ann] NoAttrs"

abbreviation ex_main :: expr where
  "ex_main \<equiv> Function [''x''] ex_add (FuncAttrs 0 None None)"

definition ex_module :: IRModule where
  "ex_module =
     \<lparr>functions_map = [(''main'', ex_main)], type_definitions = [(''List'', [''Cons'', ''Nil''])],
      import_set = [''prelude''], source_map = []\<rparr>"

definition ex_domains :: DeviceDomains where
  "ex_domains =
     \<lparr>config = example_config,
      expr_to_domain =
        [Var ''x'' \<mapsto> FirstOrder 0, ex_neg \<mapsto> FirstOrder 1, ex_ann \<mapsto> FirstOrder 0,
         ex_add \<mapsto> FirstOrder 0,
         ex_main \<mapsto> HigherOrder [FirstOrder 0] (FirstOrder 0),
         GlobalVar ''main'' \<mapsto> HigherOrder [FirstOrder 0] (FirstOrder 0)],
      call_to_callee_domain =
        [ex_neg \<mapsto> HigherOrder [FirstOrder 1] (FirstOrder 1),
         ex_ann \<mapsto> HigherOrder [FirstOrder 1] (FirstOrder 0),
         ex_add \<mapsto> HigherOrder [FirstOrder 0, FirstOrder 0] (FirstOrder 0)],
      representative = (\<lambda>n. n),
      se_scope_of = (\<lambda>n. if n = 0 then CPU else if n = 1 then GPU else FullyUnconstrained),
      next_node = 2\<rparr>"

abbreviation ex_main_planned :: expr where
  "ex_main_planned \<equiv>
     Function [''x'']
       (Call (Op ''add'')
          [Var ''x'',
           DeviceCopy
             (OnDevice (Call (Op ''negative'') [DeviceCopy (Var ''x'') CPU GPU] NoAttrs) GPU True)
             GPU CPU]
          NoAttrs)
       (FuncAttrs 0 (Some [CPU]) (Some CPU))"

lemma ex_scopes:
  "ResultSEScope ex_domains (FirstOrder 0) = CPU"
  "ResultSEScope ex_domains (FirstOrder 1) = GPU"
  "ResultSEScope ex_domains (FirstOrder (Suc 0)) = GPU"
  "ResultSEScope ex_domains (HigherOrder ps (FirstOrder 0)) = CPU"
  "ResultSEScope ex_domains (HigherOrder ps (FirstOrder (Suc 0))) = GPU"
  "GetSEScope ex_domains (Var ''x'') = Inr CPU"
  "GetSEScope ex_domains ex_neg = Inr GPU"
  "GetSEScope ex_domains ex_ann = Inr GPU"
  "GetSEScope ex_domains ex_add = Inr CPU"
  "DomainFor_ro ex_domains ex_main = Inr (HigherOrder [FirstOrder 0] (FirstOrder 0))"
  "DomainForCallee_ro ex_domains ex_neg = Inr (HigherOrder [FirstOrder 1] (FirstOrder 1))"
  "DomainForCallee_ro ex_domains ex_add
     = Inr (HigherOrder [FirstOrder 0, FirstOrder 0] (FirstOrder 0))"
  "CanonicalSEScope (config ex_domains) s = s"
  by (simp_all add: GetSEScope_def DomainFor_ro_def DomainForCallee_ro_def ex_domains_def
        ResultSEScope_def CPU_constrained GPU_constrained example_config_def)

lemma ex_neg_planned:
  "VisitExpr ex_domains ex_neg
     = Inr (Call (Op ''negative'') [DeviceCopy (Var ''x'') CPU GPU] NoAttrs)"
  using CPU_neq_GPU
  by (simp add: ex_scopes VisitChild.simps GPU_constrained CPU_constrained)

lemma ex_main_Capture: "VisitExpr ex_domains ex_main = Inr ex_main_planned"
  using CPU_neq_GPU
  by (simp add: ex_scopes VisitChild.simps GPU_constrained CPU_constrained OnDevice_def)

lemma ex_Capture:
  "Capture ex_domains ex_module
     = Inr \<lparr>functions_map = [(''main'', ex_main_planned)],
            type_definitions = [(''List'', [''Cons'', ''Nil''])],
            import_set = [''prelude''], source_map = []\<rparr>"
  by (simp add: Capture_def ex_module_def ex_main_Capture del: VisitExpr.simps)

subsection \<open>The rewritten module\<close>






lemma CaptureFunctions_result:
  "CaptureFunctions D fs = Inr fs' \<Longrightarrow>
     map fst fs' = map fst fs
     \<and> list_all (\<lambda>p. is_function (snd p) \<and> functions_carry_scopes (snd p)) fs'"
proof (induction fs arbitrary: fs')
  case Nil
  then show ?case by simp
next
  case (Cons pair rest)
  then show ?case
    by (auto split: sum.splits if_splits dest: capturer_functions_carry_scopes(1)
             simp del: VisitExpr.simps)
qed










text \<open>
  C10. The module the capturer returns has the type definitions, the imports and the
  source map of its input; the global functions are rebuilt under the same names, in the
  same order.
\<close>

theorem Capture_keeps_rest_of_module:
  assumes "Capture D m = Inr m'"
  shows "type_definitions m' = type_definitions m \<and> import_set m' = import_set m
       \<and> source_map m' = source_map m
       \<and> map fst (functions_map m') = map fst (functions_map m)"
  using assms CaptureFunctions_result [of D "functions_map m"]
  by (auto simp: Capture_def split: sum.splits)

theorem Capture_keeps_rest_of_module_witness:
  "Capture ex_domains ex_module
     = Inr \<lparr>functions_map = [(''main'', ex_main_planned)],
            type_definitions = [(''List'', [''Cons'', ''Nil''])],
            import_set = [''prelude''], source_map = []\<rparr>
   \<and> type_definitions ex_module = [(''List'', [''Cons'', ''Nil''])]
   \<and> import_set ex_module = [''prelude''] \<and> source_map ex_module = []
   \<and> map fst (functions_map ex_module) = [''main'']"
  using Capture_keeps_rest_of_module [OF ex_Capture] ex_Capture
  by (simp add: ex_module_def)

end
